theory Spec2Isabelle
  imports Main
begin

section \<open>Strings and the validation patterns\<close>

text \<open>
  A JavaScript string is modelled as a \<^typ>\<open>string\<close>: a list of code units, here the
  units 0 to 255. The two validation functions of \<^verbatim>\<open>src/utils/wallet.ts\<close> apply a
  regular expression with \<^verbatim>\<open>RegExp.prototype.test\<close>; both patterns are anchored at
  both ends (\<^verbatim>\<open>^\<close> and \<^verbatim>\<open>$\<close>, no flags), so the whole string has to match.
  The patterns are kept as syntax trees and run by a matcher.
\<close>

datatype pattern =
    Lit char                        \<comment> \<open>one literal character\<close>
  | Class "(char \<times> char) list"      \<comment> \<open>a bracket expression: a list of ranges\<close>
  | Seq pattern pattern             \<comment> \<open>concatenation\<close>
  | Times nat pattern               \<comment> \<open>the quantifier \<^verbatim>\<open>{n}\<close>\<close>
  | Star pattern                    \<comment> \<open>the quantifier \<^verbatim>\<open>*\<close> on a one-character pattern\<close>

definition in_class :: "(char \<times> char) list \<Rightarrow> char \<Rightarrow> bool" where
  "in_class rs c = list_ex (\<lambda>(lo, hi). of_char lo \<le> (of_char c :: nat) \<and> (of_char c :: nat) \<le> of_char hi) rs"

text \<open>
  \<open>residues p s\<close> lists what is left of \<open>s\<close> after each way of matching \<open>p\<close> at the
  start of \<open>s\<close>. The star is greedy and is only used on patterns that consume a
  character, so it is run over the input by structural recursion.
\<close>

fun star_residues :: "(string \<Rightarrow> string list) \<Rightarrow> string \<Rightarrow> string list" where
  "star_residues m [] = [[]]"
| "star_residues m (c # cs) =
     (if cs \<in> set (m (c # cs)) then star_residues m cs @ [c # cs] else [c # cs])"

fun times_residues :: "(string \<Rightarrow> string list) \<Rightarrow> nat \<Rightarrow> string \<Rightarrow> string list" where
  "times_residues m 0 s = [s]"
| "times_residues m (Suc n) s = concat (map (times_residues m n) (m s))"

fun residues :: "pattern \<Rightarrow> string \<Rightarrow> string list" where
  "residues (Lit c) s = (case s of [] \<Rightarrow> [] | x # xs \<Rightarrow> if x = c then [xs] else [])"
| "residues (Class rs) s = (case s of [] \<Rightarrow> [] | x # xs \<Rightarrow> if in_class rs x then [xs] else [])"
| "residues (Seq p q) s = concat (map (residues q) (residues p s))"
| "residues (Times n p) s = times_residues (residues p) n s"
| "residues (Star p) s = star_residues (residues p) s"

definition test :: "pattern \<Rightarrow> string \<Rightarrow> bool" where
  \<comment> \<open>\<^verbatim>\<open>/^p$/.test(s)\<close>\<close>
  "test p s = ([] \<in> set (residues p s))"

definition hex_class :: pattern where
  \<comment> \<open>\<^verbatim>\<open>[a-fA-F0-9]\<close>\<close>
  "hex_class = Class [(CHR ''a'', CHR ''f''), (CHR ''A'', CHR ''F''), (CHR ''0'', CHR ''9'')]"

definition isValidAddress :: "string \<Rightarrow> bool" where
  \<comment> \<open>\<^verbatim>\<open>/^0x[a-fA-F0-9]{40}$/.test(address)\<close>\<close>
  "isValidAddress address =
     test (Seq (Lit CHR ''0'') (Seq (Lit CHR ''x'') (Times 40 hex_class))) address"

definition isValidCalldata :: "string \<Rightarrow> bool" where
  \<comment> \<open>\<^verbatim>\<open>/^0x[a-fA-F0-9]*$/.test(calldata)\<close>\<close>
  "isValidCalldata calldata =
     test (Seq (Lit CHR ''0'') (Seq (Lit CHR ''x'') (Star hex_class))) calldata"

text \<open>The reading of the pattern in words: a hexadecimal character.\<close>

definition is_hex_char :: "char \<Rightarrow> bool" where
  "is_hex_char c \<longleftrightarrow>
     c \<in> set ''0123456789'' \<or> c \<in> set ''abcdef'' \<or> c \<in> set ''ABCDEF''"

section \<open>JavaScript numbers and their renderings\<close>

text \<open>
  The numbers this program handles are results of \<^verbatim>\<open>parseInt\<close>, lengths and error codes.
  A number is modelled by its value when that is an integer (a double whose value is an
  integer; \<open>-0\<close> is identified with \<open>0\<close>, as both render as \<^verbatim>\<open>0\<close>), or it is
  \<open>NaN\<close> or an infinity. Doubles with a fractional part are outside the model.
\<close>

datatype number = NaN | Fin int | PosInfinity | NegInfinity

fun bitlen :: "nat \<Rightarrow> nat" where
  "bitlen n = (if n = 0 then 0 else Suc (bitlen (n div 2)))"

declare bitlen.simps [simp del]

definition toDouble :: "nat \<Rightarrow> nat option" where
  \<comment> \<open>the double nearest to a natural number, ties to even; \<open>None\<close> is the overflow
      to \<open>Infinity\<close>\<close>
  "toDouble m =
     (if m < 2 ^ 53 then Some m
      else let e = bitlen m - 53;
               q = m div 2 ^ e;
               r = m mod 2 ^ e;
               half = 2 ^ (e - 1);
               q' = (if half < r \<or> (r = half \<and> odd q) then q + 1 else q);
               v = q' * 2 ^ e
           in if 2 ^ 1024 \<le> v then None else Some v)"

definition digit_char :: "nat \<Rightarrow> char" where
  "digit_char d = ''0123456789abcdefghijklmnopqrstuvwxyz'' ! d"

function digits :: "nat \<Rightarrow> nat \<Rightarrow> string" where
  \<comment> \<open>the digits of \<open>n\<close> in radix \<open>b\<close>, most significant first, no leading zero\<close>
  "digits b n = (if b < 2 \<or> n < b then [digit_char n] else digits b (n div b) @ [digit_char (n mod b)])"
  by pat_completeness auto
termination
  by (relation "measure (\<lambda>(b, n). n)") auto

declare digits.simps [simp del]

text \<open>
  \<^verbatim>\<open>Number.prototype.toString()\<close> prints the shortest decimal numeral that reads back
  as the same double (ECMA-262, Number::toString): digits \<open>s\<close> and an exponent with
  \<open>s \<times> 10\<^sup>p\<close> rounding to the number, \<open>s\<close> having as few digits as possible.
  \<open>shortest x p\<close> is that value \<open>s \<times> 10\<^sup>p'\<close> for the largest usable \<open>p' \<le> p\<close>; of two
  candidates the nearer one is taken, the even one on a tie.
\<close>

fun shortest :: "nat \<Rightarrow> nat \<Rightarrow> nat" where
  "shortest x 0 = x"
| "shortest x (Suc p) =
     (let u = 10 ^ Suc p;
          lo = (x div u) * u;
          hi = lo + u;
          okl = (lo \<noteq> 0 \<and> toDouble lo = Some x);
          okh = (toDouble hi = Some x)
      in if okl \<and> okh then
           (if x - lo < hi - x \<or> (x - lo = hi - x \<and> even (x div u)) then lo else hi)
         else if okl then lo
         else if okh then hi
         else shortest x p)"

definition strip_zeros :: "string \<Rightarrow> string" where
  \<comment> \<open>drops the trailing zeros of a digit string\<close>
  "strip_zeros ds = rev (dropWhile (\<lambda>c. c = CHR ''0'') (rev ds))"

definition render_nat :: "nat \<Rightarrow> string" where
  \<comment> \<open>Number::toString on a non-negative integer-valued double, radix 10\<close>
  "render_nat x =
     (let ds = digits 10 (shortest x (length (digits 10 x) - 1));
          n = length ds
      in if n \<le> 21 then ds
         else (case strip_zeros ds of
                 [] \<Rightarrow> ds
               | c # cs \<Rightarrow> (if cs = [] then [c] else c # CHR ''.'' # cs) @ ''e+'' @ digits 10 (n - 1)))"

fun Number_toString :: "number \<Rightarrow> string" where
  \<comment> \<open>\<^verbatim>\<open>x.toString()\<close>\<close>
  "Number_toString NaN = ''NaN''"
| "Number_toString PosInfinity = ''Infinity''"
| "Number_toString NegInfinity = ''-Infinity''"
| "Number_toString (Fin i) = (if i < 0 then CHR ''-'' # render_nat (nat (- i)) else render_nat (nat i))"

fun Number_toString16 :: "number \<Rightarrow> string" where
  \<comment> \<open>\<^verbatim>\<open>x.toString(16)\<close>: on an integer the digits of its value in radix 16\<close>
  "Number_toString16 NaN = ''NaN''"
| "Number_toString16 PosInfinity = ''Infinity''"
| "Number_toString16 NegInfinity = ''-Infinity''"
| "Number_toString16 (Fin i) = (if i < 0 then CHR ''-'' # digits 16 (nat (- i)) else digits 16 (nat i))"

subsection \<open>parseInt\<close>

definition is_space :: "char \<Rightarrow> bool" where
  \<comment> \<open>white space and line terminators among the code units 0 to 255\<close>
  "is_space c \<longleftrightarrow> (of_char c :: nat) \<in> {9, 10, 11, 12, 13, 32, 160}"

definition digit_value :: "char \<Rightarrow> nat option" where
  "digit_value c =
     (let n = (of_char c :: nat)
      in if 48 \<le> n \<and> n \<le> 57 then Some (n - 48)
         else if 97 \<le> n \<and> n \<le> 122 then Some (n - 87)
         else if 65 \<le> n \<and> n \<le> 90 then Some (n - 55)
         else None)"

definition is_digit :: "nat \<Rightarrow> char \<Rightarrow> bool" where
  \<comment> \<open>a digit of radix \<open>R\<close>\<close>
  "is_digit R c = (case digit_value c of None \<Rightarrow> False | Some d \<Rightarrow> d < R)"

definition mathInt :: "nat \<Rightarrow> string \<Rightarrow> nat" where
  \<comment> \<open>the integer that a string of radix-\<open>R\<close> digits denotes\<close>
  "mathInt R Z = foldl (\<lambda>acc c. acc * R + the (digit_value c)) 0 Z"

definition parseInt :: "string \<Rightarrow> nat \<Rightarrow> number" where
  \<comment> \<open>\<^verbatim>\<open>parseInt(string, radix)\<close> on a string; radix \<open>0\<close> stands for an omitted radix\<close>
  "parseInt inputString radix =
     (let S = dropWhile is_space inputString;
          negative = (S \<noteq> [] \<and> hd S = CHR ''-'');
          S1 = (if S \<noteq> [] \<and> (hd S = CHR ''+'' \<or> hd S = CHR ''-'') then tl S else S);
          stripPrefix = (radix = 0 \<or> radix = 16);
          R0 = (if radix = 0 then 10 else radix);
          prefixed = (stripPrefix \<and> (take 2 S1 = ''0x'' \<or> take 2 S1 = ''0X''));
          S2 = (if prefixed then drop 2 S1 else S1);
          R = (if prefixed then 16 else R0);
          Z = takeWhile (is_digit R) S2
      in if radix \<noteq> 0 \<and> (radix < 2 \<or> 36 < radix) then NaN
         else if Z = [] then NaN
         else (case toDouble (mathInt R Z) of
                 None \<Rightarrow> if negative then NegInfinity else PosInfinity
               | Some v \<Rightarrow> Fin (if negative then - int v else int v)))"

section \<open>JavaScript values\<close>

text \<open>
  What a provider answers is modelled as a JSON-like value: \<^verbatim>\<open>undefined\<close>,
  \<^verbatim>\<open>null\<close>, a boolean, a number, a string or an array. What a provider rejects with, and
  what the code throws, is such a value or an object with own properties; the flag of
  \<open>Obj\<close> says whether the object is an instance of \<^verbatim>\<open>Error\<close>.
\<close>

datatype jsval =
    JUndefined | JNull | JBool bool | JNum number | JStr string | JArr "jsval list"

datatype thrown = Val jsval | Obj bool "(string \<times> jsval) list"

fun truthy :: "jsval \<Rightarrow> bool" where
  "truthy JUndefined = False"
| "truthy JNull = False"
| "truthy (JBool b) = b"
| "truthy (JNum n) = (n \<noteq> NaN \<and> n \<noteq> Fin 0)"
| "truthy (JStr s) = (s \<noteq> [])"
| "truthy (JArr xs) = True"

fun join :: "string list \<Rightarrow> string" where
  \<comment> \<open>joins with commas\<close>
  "join [] = []"
| "join [x] = x"
| "join (x # y # ys) = x @ CHR '','' # join (y # ys)"

fun ToString :: "jsval \<Rightarrow> string" where
  \<comment> \<open>the abstract operation ToString, which \<^verbatim>\<open>String(v)\<close>, \<^verbatim>\<open>parseInt(v)\<close> and
      template literals apply\<close>
  "ToString JUndefined = ''undefined''"
| "ToString JNull = ''null''"
| "ToString (JBool b) = (if b then ''true'' else ''false'')"
| "ToString (JNum n) = Number_toString n"
| "ToString (JStr s) = s"
| "ToString (JArr xs) =
     join (map (\<lambda>x. if x = JUndefined \<or> x = JNull then [] else ToString x) xs)"

fun length_of :: "jsval \<Rightarrow> jsval" where
  \<comment> \<open>\<^verbatim>\<open>v.length\<close> on a value other than \<^verbatim>\<open>undefined\<close> and \<^verbatim>\<open>null\<close>\<close>
  "length_of (JArr xs) = JNum (Fin (int (length xs)))"
| "length_of (JStr s) = JNum (Fin (int (length s)))"
| "length_of v = JUndefined"

fun first_of :: "jsval \<Rightarrow> jsval" where
  \<comment> \<open>\<^verbatim>\<open>v[0]\<close> on a value other than \<^verbatim>\<open>undefined\<close> and \<^verbatim>\<open>null\<close>\<close>
  "first_of (JArr (x # xs)) = x"
| "first_of (JStr (c # cs)) = JStr [c]"
| "first_of v = JUndefined"

definition length_positive :: "jsval \<Rightarrow> bool" where
  \<comment> \<open>\<^verbatim>\<open>v.length > 0\<close>; comparing \<^verbatim>\<open>undefined\<close> with a number is false\<close>
  "length_positive v = (case length_of v of JNum (Fin n) \<Rightarrow> 0 < n | _ \<Rightarrow> False)"

definition length_zero :: "jsval \<Rightarrow> bool" where
  \<comment> \<open>\<^verbatim>\<open>v.length === 0\<close>\<close>
  "length_zero v = (length_of v = JNum (Fin 0))"

fun own_prop :: "(string \<times> jsval) list \<Rightarrow> string \<Rightarrow> jsval option" where
  \<comment> \<open>an own property of an object\<close>
  "own_prop [] k = None"
| "own_prop ((k', v) # ps) k = (if k' = k then Some v else own_prop ps k)"

section \<open>The chain registry\<close>

record NetworkInfo =
  net_chainId :: string
  net_name :: string
  rpcUrl :: "string option"
  blockExplorer :: "string option"
  currencySymbol :: string

definition NETWORKS :: "(string \<times> NetworkInfo) list" where
  "NETWORKS =
     [(''1'', \<lparr>net_chainId = ''1'', net_name = ''Ethereum Mainnet'', rpcUrl = None,
               blockExplorer = Some ''https://etherscan.io'', currencySymbol = ''ETH''\<rparr>),
      (''56'', \<lparr>net_chainId = ''56'', net_name = ''BNB Smart Chain'', rpcUrl = None,
                blockExplorer = Some ''https://bscscan.com'', currencySymbol = ''BNB''\<rparr>),
      (''8453'', \<lparr>net_chainId = ''8453'', net_name = ''Base'', rpcUrl = None,
                  blockExplorer = Some ''https://basescan.org'', currencySymbol = ''ETH''\<rparr>)]"

text \<open>
  \<^verbatim>\<open>NETWORKS\<close> is an object literal, so the expression \<^verbatim>\<open>NETWORKS[key]\<close> finds an own
  property or, failing that, a property that every object inherits from
  \<^verbatim>\<open>Object.prototype\<close>; otherwise it is \<^verbatim>\<open>undefined\<close>.
\<close>

definition Object_prototype_names :: "string list" where
  "Object_prototype_names =
     [''constructor'', ''hasOwnProperty'', ''isPrototypeOf'', ''propertyIsEnumerable'',
      ''toLocaleString'', ''toString'', ''valueOf'', ''__proto__'',
      ''__defineGetter__'', ''__defineSetter__'', ''__lookupGetter__'', ''__lookupSetter__'']"

datatype registry_value = Entry NetworkInfo | Inherited string | Undefined

definition NETWORKS_get :: "string \<Rightarrow> registry_value" where
  \<comment> \<open>\<^verbatim>\<open>NETWORKS[key]\<close>\<close>
  "NETWORKS_get key =
     (case map_of NETWORKS key of
        Some n \<Rightarrow> Entry n
      | None \<Rightarrow> if key \<in> set Object_prototype_names then Inherited key else Undefined)"

definition decimalChainId :: "string \<Rightarrow> string" where
  \<comment> \<open>\<^verbatim>\<open>chainId.startsWith('0x') ? parseInt(chainId, 16).toString() : chainId\<close>, the
      conversion that both lookups below apply first\<close>
  "decimalChainId chainId =
     (if take 2 chainId = ''0x'' then Number_toString (parseInt chainId 16) else chainId)"

definition getCurrencySymbol :: "string option \<Rightarrow> string" where
  \<comment> \<open>the argument is a string or \<^verbatim>\<open>null\<close>; the empty string is falsy too\<close>
  "getCurrencySymbol chainId =
     (case chainId of
        None \<Rightarrow> ''ETH''
      | Some c \<Rightarrow>
          if c = [] then ''ETH''
          else (case NETWORKS_get (decimalChainId c) of
                  Entry n \<Rightarrow> if currencySymbol n \<noteq> [] then currencySymbol n else ''ETH''
                | _ \<Rightarrow> ''ETH''))"

definition isChainSupported :: "string option \<Rightarrow> bool" where
  "isChainSupported chainId =
     (case chainId of
        None \<Rightarrow> False
      | Some c \<Rightarrow> if c = [] then False else NETWORKS_get (decimalChainId c) \<noteq> Undefined)"

section \<open>The injected provider\<close>

record TxParams =
  tx_from :: jsval
  tx_to :: string
  tx_data :: string
  tx_value :: "string option"

record AddChainParams =
  add_chainId :: string
  chainName :: jsval
  nativeCurrency_name :: jsval
  nativeCurrency_symbol :: jsval
  nativeCurrency_decimals :: nat
  rpcUrls :: "jsval list"
  blockExplorerUrls :: "jsval list"

datatype rpc =
    eth_accounts
  | eth_requestAccounts
  | eth_chainId
  | eth_getCode string string
  | eth_sendTransaction TxParams
  | wallet_switchEthereumChain string
  | wallet_addEthereumChain AddChainParams

text \<open>
  A provider is a state machine of the wallet: in a wallet state it answers a request by
  resolving with a value, by rejecting with a thrown value, or by leaving the promise
  pending for ever, and moves to a new state. The world that an operation runs in is the
  wallet state and the log of requests issued so far.
\<close>

datatype reply = Resolves jsval | Rejects thrown | Pending

type_synonym 's WalletProvider = "'s \<Rightarrow> rpc \<Rightarrow> reply \<times> 's"

type_synonym 's world = "'s \<times> rpc list"

datatype 'a outcome = Returned 'a | Threw thrown | Hangs

definition request :: "'s WalletProvider \<Rightarrow> rpc \<Rightarrow> 's world \<Rightarrow> jsval outcome \<times> 's world" where
  \<comment> \<open>\<^verbatim>\<open>await provider.request(...)\<close>\<close>
  "request provider r w =
     (case provider (fst w) r of
        (Resolves v, s') \<Rightarrow> (Returned v, (s', snd w @ [r]))
      | (Rejects e, s') \<Rightarrow> (Threw e, (s', snd w @ [r]))
      | (Pending, s') \<Rightarrow> (Hangs, (s', snd w @ [r])))"

definition await :: "'a outcome \<times> 'w \<Rightarrow> ('a \<Rightarrow> 'w \<Rightarrow> 'b outcome \<times> 'w) \<Rightarrow> 'b outcome \<times> 'w" where
  \<comment> \<open>sequencing: the rest of the block runs only when the first part returns\<close>
  "await m k =
     (case m of
        (Returned a, w) \<Rightarrow> k a w
      | (Threw e, w) \<Rightarrow> (Threw e, w)
      | (Hangs, w) \<Rightarrow> (Hangs, w))"

definition catch :: "'a outcome \<times> 'w \<Rightarrow> (thrown \<Rightarrow> 'w \<Rightarrow> 'a outcome \<times> 'w) \<Rightarrow> 'a outcome \<times> 'w" where
  \<comment> \<open>\<^verbatim>\<open>try { m } catch (error) { h }\<close>\<close>
  "catch m h = (case m of (Threw e, w) \<Rightarrow> h e w | (r, w) \<Rightarrow> (r, w))"

subsection \<open>Thrown values\<close>

definition Error :: "string \<Rightarrow> thrown" where
  \<comment> \<open>\<^verbatim>\<open>new Error(message)\<close>\<close>
  "Error msg = Obj True [(''message'', JStr msg)]"

definition TypeError :: "string \<Rightarrow> thrown" where
  "TypeError msg = Obj True [(''name'', JStr ''TypeError''), (''message'', JStr msg)]"

fun instanceof_Error :: "thrown \<Rightarrow> bool" where
  "instanceof_Error (Obj is_error ps) = is_error"
| "instanceof_Error (Val v) = False"

fun message_in :: "thrown \<Rightarrow> bool" where
  \<comment> \<open>\<^verbatim>\<open>error && typeof error === 'object' && 'message' in error\<close>; an instance of
      \<^verbatim>\<open>Error\<close> inherits a \<^verbatim>\<open>message\<close>, an array has none\<close>
  "message_in (Obj is_error ps) = (is_error \<or> own_prop ps ''message'' \<noteq> None)"
| "message_in (Val v) = False"

fun message_of :: "thrown \<Rightarrow> jsval" where
  \<comment> \<open>\<^verbatim>\<open>error.message\<close> on an object\<close>
  "message_of (Obj is_error ps) =
     (case own_prop ps ''message'' of
        Some m \<Rightarrow> m
      | None \<Rightarrow> if is_error then JStr [] else JUndefined)"
| "message_of (Val v) = JUndefined"

fun code_of :: "thrown \<Rightarrow> thrown + jsval" where
  \<comment> \<open>\<^verbatim>\<open>error.code\<close>; reading a property of \<^verbatim>\<open>undefined\<close> or \<^verbatim>\<open>null\<close> throws a
      \<^verbatim>\<open>TypeError\<close>, here with the message text of the V8 engine\<close>
  "code_of (Obj is_error ps) = Inr (case own_prop ps ''code'' of Some c \<Rightarrow> c | None \<Rightarrow> JUndefined)"
| "code_of (Val JUndefined) = Inl (TypeError ''Cannot read properties of undefined (reading 'code')'')"
| "code_of (Val JNull) = Inl (TypeError ''Cannot read properties of null (reading 'code')'')"
| "code_of (Val v) = Inr JUndefined"

section \<open>The wallet adapter (src/utils/wallet.ts)\<close>

subsection \<open>detectRabbyWallet and connectWallet\<close>

record 's Window =
  rabby :: "'s WalletProvider option"
  ethereum :: "('s WalletProvider \<times> bool) option"
    \<comment> \<open>\<^verbatim>\<open>window.ethereum\<close> with the truth of \<^verbatim>\<open>isRabby === true\<close>\<close>

record 's Env =
  cachedProvider :: "'s WalletProvider option"
  window :: "'s Window option"    \<comment> \<open>\<open>None\<close> when \<^verbatim>\<open>typeof window === 'undefined'\<close>\<close>

definition detectRabbyWallet :: "'s Env \<Rightarrow> 's WalletProvider option \<times> 's Env" where
  "detectRabbyWallet env =
     (case cachedProvider env of
        Some p \<Rightarrow> (Some p, env)
      | None \<Rightarrow>
          (case window env of
             None \<Rightarrow> (None, env)
           | Some win \<Rightarrow>
               (case rabby win of
                  Some p \<Rightarrow> (Some p, env\<lparr>cachedProvider := Some p\<rparr>)
                | None \<Rightarrow>
                    (case ethereum win of
                       Some (p, isRabby) \<Rightarrow>
                         if isRabby then (Some p, env\<lparr>cachedProvider := Some p\<rparr>) else (None, env)
                     | None \<Rightarrow> (None, env)))))"

record 's Connection =
  conn_provider :: "'s WalletProvider"
  conn_account :: jsval
  conn_chainId :: string

definition connect_with :: "'s WalletProvider \<Rightarrow> 's world \<Rightarrow> 's Connection outcome \<times> 's world" where
  \<comment> \<open>the \<^verbatim>\<open>try\<close> block of \<^verbatim>\<open>connectWallet\<close> and its \<^verbatim>\<open>catch\<close>\<close>
  "connect_with provider w =
     catch
       (await (request provider eth_accounts w) (\<lambda>currentAccounts w.
          await (if truthy currentAccounts \<and> length_positive currentAccounts
                 then (Returned currentAccounts, w)
                 else request provider eth_requestAccounts w) (\<lambda>accounts w.
            if \<not> truthy accounts \<or> length_zero accounts
            then (Threw (Error ''No accounts found. Please unlock your Rabby wallet.''), w)
            else await (request provider eth_chainId w) (\<lambda>hexChainId w.
              (Returned \<lparr>conn_provider = provider, conn_account = first_of accounts,
                         conn_chainId = Number_toString (parseInt (ToString hexChainId) 16)\<rparr>, w)))))
       (\<lambda>error w.
          if instanceof_Error error
          then (Threw (Error (''Failed to connect to Rabby wallet: '' @ ToString (message_of error))), w)
          else (Threw (Error ''Failed to connect to Rabby wallet: Unknown error''), w))"

definition connectWallet :: "'s Env \<Rightarrow> 's world \<Rightarrow> ('s Connection outcome \<times> 's world) \<times> 's Env" where
  "connectWallet env w =
     (case detectRabbyWallet env of
        (None, env') \<Rightarrow>
          ((Threw (Error ''Rabby wallet not detected. Please install Rabby wallet extension.''), w), env')
      | (Some provider, env') \<Rightarrow> (connect_with provider w, env'))"

definition handleChainChanged :: "string \<Rightarrow> string" where
  \<comment> \<open>the identifier that the \<^verbatim>\<open>chainChanged\<close> handler of the header passes on to
      \<^verbatim>\<open>onChainSelect\<close>, and so to \<open>switchNetwork\<close>:
      \<^verbatim>\<open>parseInt(chainId, 16).toString()\<close>\<close>
  "handleChainChanged chainId = Number_toString (parseInt chainId 16)"

subsection \<open>sendTransaction\<close>

record TransactionRequest =
  req_to :: string
  req_data :: string
  req_value :: "string option"

record TransactionResult =
  hash :: jsval
  success :: bool
  error :: "string option"

definition errorMessage :: "thrown \<Rightarrow> string" where
  \<comment> \<open>the message that the \<^verbatim>\<open>catch\<close> block of \<^verbatim>\<open>sendTransaction\<close> captures\<close>
  "errorMessage e =
     (if message_in e then ToString (message_of e)
      else if instanceof_Error e then ToString (message_of e)
      else ''Unknown error'')"

definition sendTransaction ::
  "'s WalletProvider \<Rightarrow> TransactionRequest \<Rightarrow> 's world \<Rightarrow> TransactionResult outcome \<times> 's world" where
  "sendTransaction provider transaction w =
     catch
       (await (request provider eth_accounts w) (\<lambda>accounts w.
          if \<not> truthy accounts \<or> length_zero accounts
          then (Threw (Error ''No accounts connected''), w)
          else await (request provider
                        (eth_sendTransaction
                           \<lparr>tx_from = first_of accounts, tx_to = req_to transaction,
                            tx_data = req_data transaction,
                            tx_value = (case req_value transaction of
                                          None \<Rightarrow> None
                                        | Some v \<Rightarrow> if v = [] then None else Some v)\<rparr>) w)
                 (\<lambda>txHash w. (Returned \<lparr>hash = txHash, success = True, error = None\<rparr>, w))))
       (\<lambda>e w. (Returned \<lparr>hash = JStr [], success = False, error = Some (errorMessage e)\<rparr>, w))"

subsection \<open>switchNetwork\<close>

definition hexChainId :: "string \<Rightarrow> string" where
  \<comment> \<open>\<^verbatim>\<open>`0x${parseInt(chainId).toString(16)}`\<close>\<close>
  "hexChainId chainId = ''0x'' @ Number_toString16 (parseInt chainId 0)"

definition addChainParams :: "string \<Rightarrow> registry_value \<Rightarrow> AddChainParams" where
  \<comment> \<open>the parameter object built from \<^verbatim>\<open>network = NETWORKS[chainId]\<close> when that is truthy;
      an inherited property is a function (whose \<^verbatim>\<open>name\<close> is a string) or, for
      \<^verbatim>\<open>__proto__\<close>, the prototype object, and has none of the other fields\<close>
  "addChainParams chainId network =
     (case network of
        Entry n \<Rightarrow>
          \<lparr>add_chainId = hexChainId chainId,
           chainName = JStr (net_name n),
           nativeCurrency_name = JStr (currencySymbol n),
           nativeCurrency_symbol = JStr (currencySymbol n),
           nativeCurrency_decimals = 18,
           rpcUrls = [case rpcUrl n of None \<Rightarrow> JUndefined | Some u \<Rightarrow> JStr u],
           blockExplorerUrls = (case blockExplorer n of
                                  None \<Rightarrow> []
                                | Some b \<Rightarrow> if b = [] then [] else [JStr b])\<rparr>
      | _ \<Rightarrow>
          \<lparr>add_chainId = hexChainId chainId,
           chainName = (if chainId = ''__proto__'' then JUndefined
                        else if chainId = ''constructor'' then JStr ''Object''
                        else JStr chainId),
           nativeCurrency_name = JUndefined,
           nativeCurrency_symbol = JUndefined,
           nativeCurrency_decimals = 18,
           rpcUrls = [JUndefined],
           blockExplorerUrls = []\<rparr>)"

definition switchNetwork :: "'s WalletProvider \<Rightarrow> string \<Rightarrow> 's world \<Rightarrow> unit outcome \<times> 's world" where
  "switchNetwork provider chainId w =
     catch
       (catch
          (await (request provider (wallet_switchEthereumChain (hexChainId chainId)) w)
             (\<lambda>_ w. (Returned (), w)))
          (\<lambda>error w.
             case code_of error of
               Inl type_error \<Rightarrow> (Threw type_error, w)
             | Inr code \<Rightarrow>
                 if code = JNum (Fin 4902) then
                   (case NETWORKS_get chainId of
                      Undefined \<Rightarrow> (Returned (), w)
                    | network \<Rightarrow>
                        await (request provider
                                 (wallet_addEthereumChain (addChainParams chainId network)) w)
                          (\<lambda>_ w. (Returned (), w)))
                 else (Threw error, w)))
       (\<lambda>error w. (Threw error, w))"

section \<open>The delegation detector (src/utils/eip7702.ts)\<close>

definition checkAddressHasCode :: "'s WalletProvider \<Rightarrow> string \<Rightarrow> 's world \<Rightarrow> bool outcome \<times> 's world" where
  "checkAddressHasCode provider address w =
     catch
       (await (request provider (eth_getCode address ''latest'') w)
          (\<lambda>code w. (Returned (code \<noteq> JStr ''0x'' \<and> code \<noteq> JStr ''0x0''), w)))
       (\<lambda>error w. (Returned False, w))"

section \<open>A wallet to run the operations on\<close>

text \<open>
  A concrete provider for running the operations: one unlocked account on BNB Smart
  Chain, no code at any address, a user who declines every transaction, and a wallet
  that knows no chain it is asked to switch to. The state of such a scripted wallet
  counts the requests served.
\<close>

definition answering :: "(rpc \<Rightarrow> reply) \<Rightarrow> nat WalletProvider" where
  "answering script s r = (script r, Suc s)"

definition declining_wallet :: "nat WalletProvider" where
  "declining_wallet =
     answering (\<lambda>r. case r of
        eth_accounts \<Rightarrow> Resolves (JArr [JStr ''0xd8dA6BF26964aF9D7eEd9e03E53415D37aA96045''])
      | eth_requestAccounts \<Rightarrow> Resolves (JArr [JStr ''0xd8dA6BF26964aF9D7eEd9e03E53415D37aA96045''])
      | eth_chainId \<Rightarrow> Resolves (JStr ''0x38'')
      | eth_getCode a t \<Rightarrow> Resolves (JStr ''0x'')
      | eth_sendTransaction t \<Rightarrow>
          Rejects (Obj True [(''code'', JNum (Fin 4001)), (''message'', JStr ''User rejected the request.'')])
      | wallet_switchEthereumChain c \<Rightarrow>
          Rejects (Obj True [(''code'', JNum (Fin 4902)), (''message'', JStr ''Unrecognized chain ID'')])
      | wallet_addEthereumChain a \<Rightarrow> Resolves JNull)"

section \<open>The transaction form (src/components/TransactionForm.tsx)\<close>

subsection \<open>parseFloat, as far as the form observes it\<close>

definition is_dec :: "char \<Rightarrow> bool" where
  "is_dec c = is_digit 10 c"

definition exponent_part :: "string \<Rightarrow> int" where
  \<comment> \<open>the value of an exponent part \<^verbatim>\<open>e\<close>, sign, digits at the start of a string; \<open>0\<close> when
      there is none\<close>
  "exponent_part r =
     (case r of
        [] \<Rightarrow> 0
      | c # t \<Rightarrow>
          if c = CHR ''e'' \<or> c = CHR ''E'' then
            (case t of
               [] \<Rightarrow> 0
             | d # u \<Rightarrow>
                 if d = CHR ''-'' then
                   (if takeWhile is_dec u = [] then 0 else - int (mathInt 10 (takeWhile is_dec u)))
                 else if d = CHR ''+'' then
                   (if takeWhile is_dec u = [] then 0 else int (mathInt 10 (takeWhile is_dec u)))
                 else int (mathInt 10 (takeWhile is_dec t)))
          else 0)"

definition rounds_to_nonzero :: "nat \<Rightarrow> int \<Rightarrow> bool" where
  \<comment> \<open>whether \<open>m \<times> 10\<^sup>e\<close> is above half the least positive double, \<open>2\<^sup>-\<^sup>1\<^sup>0\<^sup>7\<^sup>5\<close>, and so does not
      round to zero\<close>
  "rounds_to_nonzero m e =
     (0 < m \<and> (0 \<le> e \<or> 10 ^ nat (- e) < m * 2 ^ 1075))"

definition parseFloat_rejected :: "string \<Rightarrow> bool" where
  \<comment> \<open>\<^verbatim>\<open>isNaN(parseFloat(s)) || parseFloat(s) < 0\<close>: \<^verbatim>\<open>parseFloat\<close> reads the longest prefix
      of the trimmed string that is a decimal literal, and is \<open>NaN\<close> when there is none\<close>
  "parseFloat_rejected str =
     (let S = dropWhile is_space str;
          negative = (S \<noteq> [] \<and> hd S = CHR ''-'');
          U = (if S \<noteq> [] \<and> (hd S = CHR ''+'' \<or> hd S = CHR ''-'') then tl S else S);
          ip = takeWhile is_dec U;
          r1 = dropWhile is_dec U;
          dot = (r1 \<noteq> [] \<and> hd r1 = CHR ''.'');
          fp = (if dot then takeWhile is_dec (tl r1) else []);
          r2 = (if dot then dropWhile is_dec (tl r1) else r1)
      in if take 8 U = ''Infinity'' then negative
         else if ip = [] \<and> fp = [] then True
         else negative \<and> rounds_to_nonzero (mathInt 10 (ip @ fp)) (exponent_part r2 - int (length fp)))"

subsection \<open>The form\<close>

text \<open>
  The form imports \<^verbatim>\<open>parseEther\<close> and \<^verbatim>\<open>formatEther\<close> from the ethers library, which
  is not part of the sources; the form's functions take the two as parameters.
  \<^verbatim>\<open>parseEther\<close> gives a big integer or throws; \<^verbatim>\<open>formatEther\<close> gives a string or
  throws. The state modelled is the form data, the unit, the amount as typed in the
  \<^verbatim>\<open>eth\<close> unit and the currency symbol shown.
\<close>

record ethers =
  parseEther :: "string \<Rightarrow> int option"
  formatEther :: "string \<Rightarrow> string option"

definition BigInt_toString :: "int \<Rightarrow> string" where
  \<comment> \<open>\<^verbatim>\<open>bigint.toString()\<close>\<close>
  "BigInt_toString i = (if i < 0 then CHR ''-'' # digits 10 (nat (- i)) else digits 10 (nat i))"

datatype valueUnit = wei | eth

record FormState =
  formData :: TransactionRequest
  valueUnit :: valueUnit
  ethValue :: string
  currentCurrencySymbol :: string

definition weiToEth :: "ethers \<Rightarrow> string \<Rightarrow> string" where
  "weiToEth E w =
     (if w = [] then []
      else (case formatEther E w of Some s \<Rightarrow> s | None \<Rightarrow> []))"

definition handleInputChange_value :: "FormState \<Rightarrow> string \<Rightarrow> FormState" where
  \<comment> \<open>\<^verbatim>\<open>handleInputChange('value', v)\<close>\<close>
  "handleInputChange_value st v = st\<lparr>formData := (formData st)\<lparr>req_value := Some v\<rparr>\<rparr>"

definition handleValueChange :: "ethers \<Rightarrow> FormState \<Rightarrow> string \<Rightarrow> FormState" where
  "handleValueChange E st inputValue =
     (if valueUnit st = eth then
        (let st' = st\<lparr>ethValue := inputValue\<rparr>
         in if inputValue \<noteq> [] \<and> inputValue \<noteq> ''.'' then
              (case parseEther E inputValue of
                 Some weiValue \<Rightarrow> handleInputChange_value st' (BigInt_toString weiValue)
               | None \<Rightarrow> handleInputChange_value st' [])
            else handleInputChange_value st' [])
      else handleInputChange_value (st\<lparr>ethValue := []\<rparr>) inputValue)"

definition validateForm :: "ethers \<Rightarrow> FormState \<Rightarrow> (string \<times> string) list" where
  \<comment> \<open>the error messages by field; the form is valid when there is none\<close>
  "validateForm E st =
     (if req_to (formData st) = [] then [(''to'', ''Contract address is required'')]
      else if \<not> isValidAddress (req_to (formData st)) then [(''to'', ''Invalid Ethereum address format'')]
      else [])
     @ (if req_data (formData st) = [] then [(''data'', ''Calldata is required'')]
        else if \<not> isValidCalldata (req_data (formData st))
        then [(''data'', ''Invalid calldata format (must start with 0x and contain hex characters)'')]
        else [])
     @ (case req_value (formData st) of
          None \<Rightarrow> []
        | Some v \<Rightarrow>
            if v = [] then []
            else if valueUnit st = eth then
              (if parseFloat_rejected (ethValue st)
               then [(''value'', ''Value must be a valid positive number'')] else [])
            else (case formatEther E v of
                    None \<Rightarrow> [(''value'', ''Invalid wei value'')]
                  | Some s \<Rightarrow> []))"

datatype submission = Submitted TransactionRequest | Refused "(string \<times> string) list"

definition handleSubmit :: "ethers \<Rightarrow> FormState \<Rightarrow> submission" where
  \<comment> \<open>\<open>Submitted t\<close>: \<^verbatim>\<open>onSubmit(t)\<close> is called; \<open>Refused errors\<close>: it is not\<close>
  "handleSubmit E st =
     (if validateForm E st \<noteq> [] then Refused (validateForm E st)
      else
        (case (if valueUnit st = eth \<and> ethValue st \<noteq> []
               then map_option BigInt_toString (parseEther E (ethValue st))
               else Some (case req_value (formData st) of None \<Rightarrow> [] | Some v \<Rightarrow> v)) of
           None \<Rightarrow> Refused [(''value'', ''Invalid '' @ currentCurrencySymbol st @ '' value'')]
         | Some finalValue \<Rightarrow>
             Submitted
               \<lparr>req_to = req_to (formData st),
                req_data = req_data (formData st),
                req_value = (if finalValue = [] then None
                             else Some (''0x'' @ Number_toString16 (parseInt finalValue 0)))\<rparr>))"

definition hex_quantity :: "string \<Rightarrow> nat option" where
  \<comment> \<open>the amount that a wallet reads from a \<^verbatim>\<open>value\<close> field: \<^verbatim>\<open>0x\<close> and hexadecimal
      digits\<close>
  "hex_quantity p =
     (if take 2 p = ''0x'' \<and> drop 2 p \<noteq> [] \<and> list_all is_hex_char (drop 2 p)
      then Some (mathInt 16 (drop 2 p)) else None)"

subsection \<open>The unit conversions of the specification\<close>

text \<open>
  Modelled from the spec: \<^verbatim>\<open>parseEther\<close> and \<^verbatim>\<open>formatEther\<close> of the ethers library,
  which \<^verbatim>\<open>TransactionForm.tsx\<close> imports and which is not among the sources. Section 4.2
  of the specification describes them as \<^verbatim>\<open>toBaseUnits\<close> (a decimal string such as
  \<^verbatim>\<open>1.5\<close> to the integer amount scaled by \<open>10\<^sup>1\<^sup>8\<close>, as a decimal string; an error when the
  input is not a non-negative decimal numeral) and \<^verbatim>\<open>fromBaseUnits\<close> (a base-unit integer
  string to a decimal string with up to 18 fractional digits, trailing zeros trimmed).
  Following the library, a numeral has digits before or after an optional point, at least
  one digit in all, and digits beyond the 18th fractional one must be zeros; the output
  keeps one digit on each side of the point.
\<close>

definition split_amount :: "string \<Rightarrow> (string \<times> string) option" where
  \<comment> \<open>the digits before and after the point of a non-negative decimal numeral\<close>
  "split_amount x =
     (let w = takeWhile is_dec x;
          r = dropWhile is_dec x;
          f = (if r = [] then [] else tl r)
      in if (r = [] \<or> hd r = CHR ''.'') \<and> list_all is_dec f \<and> w @ f \<noteq> [] then Some (w, f) else None)"

definition baseUnits :: "string \<Rightarrow> nat option" where
  "baseUnits x =
     (case split_amount x of
        None \<Rightarrow> None
      | Some (w, f) \<Rightarrow>
          if list_all (\<lambda>c. c = CHR ''0'') (drop 18 f)
          then Some (mathInt 10 w * 10 ^ 18 + mathInt 10 (take 18 (f @ replicate 18 CHR ''0'')))
          else None)"

definition toBaseUnits :: "string \<Rightarrow> string option" where
  "toBaseUnits x = map_option (digits 10) (baseUnits x)"

definition keep_one :: "string \<Rightarrow> string" where
  "keep_one ds = (if ds = [] then ''0'' else ds)"

definition fromBaseUnits :: "string \<Rightarrow> string option" where
  "fromBaseUnits n =
     (if n \<noteq> [] \<and> list_all is_dec n
      then (let v = mathInt 10 n;
                frac = digits 10 (v mod 10 ^ 18);
                frac18 = replicate (18 - length frac) CHR ''0'' @ frac
            in Some (digits 10 (v div 10 ^ 18) @ CHR ''.'' # keep_one (strip_zeros frac18)))
      else None)"

definition spec_ethers :: ethers where
  "spec_ethers = \<lparr>parseEther = (\<lambda>x. map_option int (baseUnits x)), formatEther = fromBaseUnits\<rparr>"

definition canonical :: "string \<Rightarrow> string" where
  \<comment> \<open>a decimal numeral with its trailing fractional zeros and leading zeros trimmed, one
      digit kept on each side of the point\<close>
  "canonical x =
     (case split_amount x of
        None \<Rightarrow> x
      | Some (w, f) \<Rightarrow>
          keep_one (dropWhile (\<lambda>c. c = CHR ''0'') w) @ CHR ''.'' # keep_one (strip_zeros f))"

text \<open>A filled form to run the form's functions on.\<close>

definition example_form :: "valueUnit \<Rightarrow> string \<Rightarrow> FormState" where
  "example_form u v =
     \<lparr>formData = \<lparr>req_to = ''0x6B175474E89094C44Da98b954EedeAC495271d0F'',
                   req_data = ''0xa9059cbb'', req_value = Some v\<rparr>,
      valueUnit = u, ethValue = [], currentCurrencySymbol = ''ETH''\<rparr>"

section \<open>Properties of the validation patterns\<close>

lemma char_eq_code: "(c = d) \<longleftrightarrow> (of_char c :: nat) = of_char d"
  by simp

lemma in_hex_class:
  "in_class [(CHR ''a'', CHR ''f''), (CHR ''A'', CHR ''F''), (CHR ''0'', CHR ''9'')] c = is_hex_char c"
proof -
  define n :: nat where "n = of_char c"
  have "is_hex_char c \<longleftrightarrow>
      n \<in> {48, 49, 50, 51, 52, 53, 54, 55, 56, 57, 97, 98, 99, 100, 101, 102, 65, 66, 67, 68, 69, 70}"
    unfolding is_hex_char_def n_def by (simp add: char_eq_code [of c])
  moreover have "in_class [(CHR ''a'', CHR ''f''), (CHR ''A'', CHR ''F''), (CHR ''0'', CHR ''9'')] c
     \<longleftrightarrow> (97 \<le> n \<and> n \<le> 102) \<or> (65 \<le> n \<and> n \<le> 70) \<or> (48 \<le> n \<and> n \<le> 57)"
    unfolding in_class_def n_def by simp
  moreover have "(97 \<le> n \<and> n \<le> 102) \<or> (65 \<le> n \<and> n \<le> 70) \<or> (48 \<le> n \<and> n \<le> 57) \<longleftrightarrow>
     n \<in> {48, 49, 50, 51, 52, 53, 54, 55, 56, 57, 97, 98, 99, 100, 101, 102, 65, 66, 67, 68, 69, 70}"
    by (simp, arith)
  ultimately show ?thesis by blast
qed

lemma in_hex_class_fun:
  "in_class [(CHR ''a'', CHR ''f''), (CHR ''A'', CHR ''F''), (CHR ''0'', CHR ''9'')] = is_hex_char"
  by (rule ext) (rule in_hex_class)

lemma times_class:
  "times_residues (residues (Class rs)) n s =
     (if n \<le> length s \<and> list_all (in_class rs) (take n s) then [drop n s] else [])"
proof (induction n arbitrary: s)
  case 0
  show ?case by simp
next
  case (Suc n)
  show ?case
  proof (cases s)
    case Nil
    then show ?thesis by simp
  next
    case (Cons x xs)
    then show ?thesis using Suc [of xs] by (cases "in_class rs x") simp_all
  qed
qed

text \<open>
  Claim C4. For every string \<open>s\<close>, \<open>isValidAddress s\<close> is true if and only if \<open>s\<close> is
  the prefix \<^verbatim>\<open>0x\<close> followed by exactly 40 hexadecimal characters; on every other
  string (wrong length, missing prefix, a character that is not hexadecimal) it is
  false. The function is total: it returns a boolean on every string.
\<close>

theorem isValidAddress_iff:
  "isValidAddress s \<longleftrightarrow> (\<exists>h. s = ''0x'' @ h \<and> length h = 40 \<and> list_all is_hex_char h)"
proof (cases s)
  case Nil
  then show ?thesis by (simp add: isValidAddress_def test_def)
next
  case (Cons a t)
  note s = this
  show ?thesis
  proof (cases t)
    case Nil
    then show ?thesis using s by (simp add: isValidAddress_def test_def)
  next
    case (Cons b h)
    have "length h = 40 \<Longrightarrow> take 40 h = h" by simp
    then show ?thesis using s Cons
      by (auto simp add: isValidAddress_def test_def hex_class_def times_class in_hex_class_fun)
  qed
qed

section \<open>Facts about numbers\<close>

lemma is_digit_16: "is_digit 16 c = is_hex_char c"
proof -
  define n :: nat where "n = of_char c"
  have "is_hex_char c \<longleftrightarrow>
      n \<in> {48, 49, 50, 51, 52, 53, 54, 55, 56, 57, 97, 98, 99, 100, 101, 102, 65, 66, 67, 68, 69, 70}"
    unfolding is_hex_char_def n_def by (simp add: char_eq_code [of c])
  moreover have "is_digit 16 c \<longleftrightarrow> (48 \<le> n \<and> n \<le> 57) \<or> (97 \<le> n \<and> n \<le> 102) \<or> (65 \<le> n \<and> n \<le> 70)"
    unfolding is_digit_def digit_value_def n_def [symmetric] by (auto simp add: Let_def)
  moreover have "(48 \<le> n \<and> n \<le> 57) \<or> (97 \<le> n \<and> n \<le> 102) \<or> (65 \<le> n \<and> n \<le> 70) \<longleftrightarrow>
     n \<in> {48, 49, 50, 51, 52, 53, 54, 55, 56, 57, 97, 98, 99, 100, 101, 102, 65, 66, 67, 68, 69, 70}"
    by (simp, arith)
  ultimately show ?thesis by blast
qed

lemma takeWhile_hex: "list_all is_hex_char h \<Longrightarrow> takeWhile (is_digit 16) h = h"
  by (induction h) (simp_all add: is_digit_16)

lemma bitlen_upper: "n < 2 ^ bitlen n"
proof (induction n rule: bitlen.induct)
  case (1 n)
  show ?case
  proof (cases "n = 0")
    case True
    then show ?thesis by (subst bitlen.simps) simp
  next
    case False
    then have "n div 2 < 2 ^ bitlen (n div 2)" using 1 by simp
    then have "n < 2 * 2 ^ bitlen (n div 2)" by arith
    then show ?thesis using False by (subst bitlen.simps) simp
  qed
qed

lemma bitlen_lower: "n \<noteq> 0 \<Longrightarrow> 2 ^ (bitlen n - 1) \<le> n"
proof (induction n rule: bitlen.induct)
  case (1 n)
  show ?case
  proof (cases "n div 2 = 0")
    case True
    then have "bitlen n = 1" using 1(2) by (subst bitlen.simps, subst bitlen.simps) simp
    then show ?thesis using 1(2) by simp
  next
    case False
    then have ih: "2 ^ (bitlen (n div 2) - 1) \<le> n div 2" using 1 by simp
    have pos: "bitlen (n div 2) \<noteq> 0" using False by (subst bitlen.simps) simp
    have "bitlen n = Suc (bitlen (n div 2))" using 1(2) by (subst bitlen.simps) simp
    then have "(2::nat) ^ (bitlen n - 1) = 2 * 2 ^ (bitlen (n div 2) - 1)"
      using pos by (cases "bitlen (n div 2)") simp_all
    then show ?thesis using ih by arith
  qed
qed

lemma toDouble_small: "m < 2 ^ 53 \<Longrightarrow> toDouble m = Some m"
  by (simp add: toDouble_def)

lemma toDouble_large:
  assumes "2 ^ 53 \<le> m" and "toDouble m = Some v"
  shows "2 ^ 53 \<le> v"
proof -
  define e where "e = bitlen m - 53"
  define q where "q = m div 2 ^ e"
  have "m < 2 ^ bitlen m" by (rule bitlen_upper)
  then have "(2::nat) ^ 53 < 2 ^ bitlen m" using assms(1) by arith
  then have b: "53 < bitlen m" by (rule power_less_imp_less_exp [rotated]) simp
  have m0: "m \<noteq> 0" using assms(1) by auto
  have "bitlen m - 1 = 52 + e" using b by (simp add: e_def)
  then have "(2::nat) ^ 52 * 2 ^ e \<le> m" using bitlen_lower [OF m0] by (simp add: power_add)
  then have q: "2 ^ 52 \<le> q" unfolding q_def
    by (metis div_mult_self_is_m div_le_mono zero_less_numeral zero_less_power)
  have e1: "1 \<le> e" using b by (simp add: e_def)
  define q' where "q' = (if 2 ^ (e - 1) < m mod 2 ^ e \<or> (m mod 2 ^ e = 2 ^ (e - 1) \<and> odd q) then q + 1 else q)"
  have "\<not> m < 2 ^ 53" using assms(1) by (simp only: not_less)
  then have "toDouble m = (if 2 ^ 1024 \<le> q' * 2 ^ e then None else Some (q' * 2 ^ e))"
    by (simp only: toDouble_def Let_def if_False q'_def q_def e_def)
  then have v: "v = q' * 2 ^ e" using assms(2) by (cases "2 ^ 1024 \<le> q' * 2 ^ e") simp_all
  have q': "q \<le> q'" by (simp add: q'_def)
  have "(2::nat) ^ 1 \<le> 2 ^ e" using e1 by (intro power_increasing) simp_all
  moreover have "2 ^ 52 \<le> q'" using q q' by (rule order_trans)
  ultimately have "(2::nat) ^ 52 * 2 ^ 1 \<le> q' * 2 ^ e" by (intro mult_le_mono)
  then show ?thesis using v by simp
qed

lemma shortest_small: "x < 2 ^ 53 \<Longrightarrow> shortest x p = x"
proof (induction p)
  case 0
  show ?case by simp
next
  case (Suc p)
  define u :: nat where "u = 10 ^ Suc p"
  define lo where "lo = (x div u) * u"
  have u0: "0 < u" by (simp add: u_def)
  have lo_le: "lo \<le> x" by (simp add: lo_def)
  have hi_gt: "x < lo + u" using u0 unfolding lo_def
    by (metis add.commute div_mult_mod_eq add_less_cancel_left mod_less_divisor mult.commute)
  have okl: "toDouble lo = Some x \<longleftrightarrow> lo = x"
    using lo_le Suc.prems by (simp add: toDouble_small)
  have okh: "toDouble (lo + u) \<noteq> Some x"
  proof (cases "lo + u < 2 ^ 53")
    case True
    then show ?thesis using hi_gt by (simp add: toDouble_small)
  next
    case False
    then show ?thesis using toDouble_large [of "lo + u" x] Suc.prems by auto
  qed
  show ?case
    using okl okh Suc
    by (simp add: Let_def u_def [symmetric] lo_def [symmetric] del: power_Suc)
qed

lemma digits_length: "0 < k \<Longrightarrow> x < 10 ^ k \<Longrightarrow> length (digits 10 x) \<le> k"
proof (induction k arbitrary: x)
  case 0
  then show ?case by simp
next
  case (Suc k)
  show ?case
  proof (cases "x < 10")
    case True
    then show ?thesis using Suc.prems by (subst digits.simps) simp
  next
    case False
    then have k: "0 < k" using Suc.prems by (cases k) auto
    have "x div 10 < 10 ^ k" using Suc.prems by simp
    then have "length (digits 10 (x div 10)) \<le> k" using Suc.IH k by simp
    then show ?thesis using False by (subst digits.simps) simp
  qed
qed

lemma render_nat_small: "x < 2 ^ 53 \<Longrightarrow> render_nat x = digits 10 x"
proof -
  assume x: "x < 2 ^ 53"
  then have "x < 10 ^ 21" by simp
  then have "length (digits 10 x) \<le> 21" by (intro digits_length) simp_all
  then show ?thesis using x by (simp add: render_nat_def shortest_small Let_def)
qed

lemmas parse_defs = parseInt_def is_space_def is_digit_def digit_value_def mathInt_def
  toDouble_def digit_char_def digits.simps

lemma hexChainId_1: "hexChainId ''1'' = ''0x1''"
  by (simp add: hexChainId_def parse_defs)

lemma hexChainId_56: "hexChainId ''56'' = ''0x38''"
  by (simp add: hexChainId_def parse_defs)

lemma hexChainId_137: "hexChainId ''137'' = ''0x89''"
  by (simp add: hexChainId_def parse_defs)

section \<open>The delegation detector never throws\<close>

lemmas io_defs = request_def await_def catch_def

text \<open>
  Claim C8. For every provider and address, \<open>checkAddressHasCode\<close> never throws. When
  the \<^verbatim>\<open>eth_getCode\<close> query resolves, the result is true if and only if the code
  returned is neither \<^verbatim>\<open>'0x'\<close> nor \<^verbatim>\<open>'0x0'\<close>; when the query is rejected the
  result is false. (While the query stays pending, so does the operation.)
\<close>

theorem checkAddressHasCode_never_throws:
  "fst (checkAddressHasCode provider address w) =
     (case fst (provider (fst w) (eth_getCode address ''latest'')) of
        Resolves code \<Rightarrow> Returned (code \<noteq> JStr ''0x'' \<and> code \<noteq> JStr ''0x0'')
      | Rejects e \<Rightarrow> Returned False
      | Pending \<Rightarrow> Hangs)
   \<and> fst (checkAddressHasCode provider address w) \<noteq> Threw e"
  by (simp add: checkAddressHasCode_def io_defs split: prod.splits reply.splits)

theorem checkAddressHasCode_witness:
  "fst (checkAddressHasCode declining_wallet ''0xd8dA6BF26964aF9D7eEd9e03E53415D37aA96045'' (0, []))
     = Returned False
   \<and> fst (checkAddressHasCode (answering (\<lambda>r. Resolves (JStr ''0x6080''))) ''0xd8dA6BF26964aF9D7eEd9e03E53415D37aA96045'' (0, []))
     = Returned True
   \<and> fst (checkAddressHasCode (answering (\<lambda>r. Rejects (Val JNull))) ''0xd8dA6BF26964aF9D7eEd9e03E53415D37aA96045'' (0, []))
     = Returned False"
  using checkAddressHasCode_never_throws [of declining_wallet "''0xd8dA6BF26964aF9D7eEd9e03E53415D37aA96045''" "(0, [])"]
    checkAddressHasCode_never_throws [of "answering (\<lambda>r. Resolves (JStr ''0x6080''))" "''0xd8dA6BF26964aF9D7eEd9e03E53415D37aA96045''" "(0, [])"]
    checkAddressHasCode_never_throws [of "answering (\<lambda>r. Rejects (Val JNull))" "''0xd8dA6BF26964aF9D7eEd9e03E53415D37aA96045''" "(0, [])"]
  by (simp add: declining_wallet_def answering_def)

section \<open>Submission never throws\<close>

text \<open>
  Claim C1. For every provider and transaction request, \<open>sendTransaction\<close> never throws
  to its caller. When the provider's send resolves, it returns the hash that the
  provider returned with \<open>success = True\<close>. On every failure (\<^verbatim>\<open>eth_accounts\<close> rejected,
  no account connected, the send rejected) it returns the empty hash,
  \<open>success = False\<close> and the captured message: the \<^verbatim>\<open>message\<close> of the value the provider
  rejected with, \<^verbatim>\<open>No accounts connected\<close> when there is no account, and
  \<^verbatim>\<open>Unknown error\<close> when the rejection carries no message. (While a request stays pending,
  so does the operation.)
\<close>

theorem sendTransaction_never_throws:
  "fst (sendTransaction provider transaction w) =
     (case provider (fst w) eth_accounts of
        (Pending, s) \<Rightarrow> Hangs
      | (Rejects e, s) \<Rightarrow> Returned \<lparr>hash = JStr [], success = False, error = Some (errorMessage e)\<rparr>
      | (Resolves accounts, s) \<Rightarrow>
          if \<not> truthy accounts \<or> length_zero accounts
          then Returned \<lparr>hash = JStr [], success = False, error = Some ''No accounts connected''\<rparr>
          else (case fst (provider s (eth_sendTransaction
                   \<lparr>tx_from = first_of accounts, tx_to = req_to transaction,
                    tx_data = req_data transaction,
                    tx_value = (case req_value transaction of
                                  None \<Rightarrow> None
                                | Some v \<Rightarrow> if v = [] then None else Some v)\<rparr>)) of
                  Resolves txHash \<Rightarrow> Returned \<lparr>hash = txHash, success = True, error = None\<rparr>
                | Rejects e \<Rightarrow> Returned \<lparr>hash = JStr [], success = False, error = Some (errorMessage e)\<rparr>
                | Pending \<Rightarrow> Hangs))
   \<and> fst (sendTransaction provider transaction w) \<noteq> Threw e
   \<and> (own_prop ps ''message'' = Some m \<longrightarrow> errorMessage (Obj is_error ps) = ToString m)
   \<and> errorMessage (Val v) = ''Unknown error''"
  by (simp add: sendTransaction_def io_defs errorMessage_def Error_def split: prod.splits reply.splits)

theorem sendTransaction_witness:
  "fst (sendTransaction declining_wallet
          \<lparr>req_to = ''0x6B175474E89094C44Da98b954EedeAC495271d0F'', req_data = ''0xa9059cbb'',
           req_value = Some ''0xde0b6b3a7640000''\<rparr> (0, []))
     = Returned \<lparr>hash = JStr [], success = False, error = Some ''User rejected the request.''\<rparr>
   \<and> fst (sendTransaction (answering (\<lambda>r. case r of eth_accounts \<Rightarrow> Resolves (JArr [JStr ''0xd8dA6BF26964aF9D7eEd9e03E53415D37aA96045'']) | _ \<Rightarrow> Resolves (JStr ''0x5c504ed4'')))
          \<lparr>req_to = ''0x6B175474E89094C44Da98b954EedeAC495271d0F'', req_data = ''0xa9059cbb'',
           req_value = None\<rparr> (0, []))
     = Returned \<lparr>hash = JStr ''0x5c504ed4'', success = True, error = None\<rparr>
   \<and> errorMessage (Obj True [(''code'', JNum (Fin 4001)), (''message'', JStr ''User rejected the request.'')])
       = ''User rejected the request.''"
  using sendTransaction_never_throws [where provider = declining_wallet
      and transaction = "\<lparr>req_to = ''0x6B175474E89094C44Da98b954EedeAC495271d0F'', req_data = ''0xa9059cbb'',
           req_value = Some ''0xde0b6b3a7640000''\<rparr>" and w = "(0, [])"
      and ps = "[(''code'', JNum (Fin 4001)), (''message'', JStr ''User rejected the request.'')]"
      and m = "JStr ''User rejected the request.''" and is_error = True]
    sendTransaction_never_throws [where provider = "answering (\<lambda>r. case r of eth_accounts \<Rightarrow> Resolves (JArr [JStr ''0xd8dA6BF26964aF9D7eEd9e03E53415D37aA96045'']) | _ \<Rightarrow> Resolves (JStr ''0x5c504ed4''))"
      and transaction = "\<lparr>req_to = ''0x6B175474E89094C44Da98b954EedeAC495271d0F'', req_data = ''0xa9059cbb'',
           req_value = None\<rparr>" and w = "(0, [])"]
  by (simp add: declining_wallet_def answering_def length_zero_def)

section \<open>Switching to a chain the wallet does not know\<close>

text \<open>
  Claim C2 says that, whenever the provider rejects \<^verbatim>\<open>wallet_switchEthereumChain\<close> with
  code 4902, \<open>switchNetwork\<close> requests \<^verbatim>\<open>wallet_addEthereumChain\<close> with the registry
  metadata and then retries the switch. The code issues no retry: on the wallet below,
  which rejects the switch to chain 1 with code 4902, the requests issued are the switch
  and the add request, and nothing after them.
\<close>

theorem switchNetwork_no_retry:
  "declining_wallet 0 (wallet_switchEthereumChain (hexChainId ''1'')) =
      (Rejects (Obj True [(''code'', JNum (Fin 4902)), (''message'', JStr ''Unrecognized chain ID'')]), 1)
   \<and> switchNetwork declining_wallet ''1'' (0, []) =
      (Returned (), (2, [wallet_switchEthereumChain ''0x1'',
           wallet_addEthereumChain
             \<lparr>add_chainId = ''0x1'', chainName = JStr ''Ethereum Mainnet'',
              nativeCurrency_name = JStr ''ETH'', nativeCurrency_symbol = JStr ''ETH'',
              nativeCurrency_decimals = 18, rpcUrls = [JUndefined],
              blockExplorerUrls = [JStr ''https://etherscan.io'']\<rparr>]))"
  by (simp add: switchNetwork_def io_defs declining_wallet_def answering_def hexChainId_1
      NETWORKS_get_def NETWORKS_def addChainParams_def)

text \<open>
  Claim C2, amended. When the provider rejects the switch with code 4902 and the target
  chain is a key of the registry, \<open>switchNetwork\<close> issues exactly one more request,
  \<^verbatim>\<open>wallet_addEthereumChain\<close> with the registry metadata of the chain (its hexadecimal
  identifier, its name, its currency symbol as currency name and symbol, 18 decimals, an
  undefined RPC URL and its explorer URL), and does not retry the switch; it returns when
  the add request resolves and throws what the add request is rejected with. When the
  provider rejects the switch with a value whose code is not 4902, that value propagates
  to the caller and no other request is issued.
\<close>

theorem switchNetwork_add_chain:
  "(provider s (wallet_switchEthereumChain (hexChainId chainId)) = (Rejects e, s1) \<and>
    code_of e = Inr (JNum (Fin 4902)) \<and> map_of NETWORKS chainId = Some n \<longrightarrow>
      snd (snd (switchNetwork provider chainId (s, log))) =
        log @ [wallet_switchEthereumChain (hexChainId chainId),
               wallet_addEthereumChain
                 \<lparr>add_chainId = hexChainId chainId, chainName = JStr (net_name n),
                  nativeCurrency_name = JStr (currencySymbol n),
                  nativeCurrency_symbol = JStr (currencySymbol n),
                  nativeCurrency_decimals = 18, rpcUrls = [JUndefined],
                  blockExplorerUrls = (case blockExplorer n of None \<Rightarrow> [] | Some b \<Rightarrow> [JStr b])\<rparr>]
      \<and> fst (switchNetwork provider chainId (s, log)) =
          (case fst (provider s1 (wallet_addEthereumChain (addChainParams chainId (Entry n)))) of
             Resolves v \<Rightarrow> Returned ()
           | Rejects e' \<Rightarrow> Threw e'
           | Pending \<Rightarrow> Hangs))
   \<and> (provider' s' (wallet_switchEthereumChain (hexChainId chainId')) = (Rejects e', s1') \<and>
      code_of e' = Inr c \<and> c \<noteq> JNum (Fin 4902) \<longrightarrow>
        switchNetwork provider' chainId' (s', log') =
          (Threw e', (s1', log' @ [wallet_switchEthereumChain (hexChainId chainId')])))"
proof -
  have meta: "map_of NETWORKS chainId = Some n \<Longrightarrow>
      addChainParams chainId (Entry n) =
        \<lparr>add_chainId = hexChainId chainId, chainName = JStr (net_name n),
         nativeCurrency_name = JStr (currencySymbol n),
         nativeCurrency_symbol = JStr (currencySymbol n),
         nativeCurrency_decimals = 18, rpcUrls = [JUndefined],
         blockExplorerUrls = (case blockExplorer n of None \<Rightarrow> [] | Some b \<Rightarrow> [JStr b])\<rparr>"
    by (auto simp add: addChainParams_def NETWORKS_def split: if_splits)
  show ?thesis
    using meta
    by (auto simp add: switchNetwork_def io_defs NETWORKS_get_def split: prod.splits reply.splits)
qed

theorem switchNetwork_add_chain_witness:
  "snd (snd (switchNetwork declining_wallet ''56'' (0, []))) =
      [wallet_switchEthereumChain ''0x38'',
       wallet_addEthereumChain
         \<lparr>add_chainId = ''0x38'', chainName = JStr ''BNB Smart Chain'',
          nativeCurrency_name = JStr ''BNB'', nativeCurrency_symbol = JStr ''BNB'',
          nativeCurrency_decimals = 18, rpcUrls = [JUndefined],
          blockExplorerUrls = [JStr ''https://bscscan.com'']\<rparr>]
   \<and> fst (switchNetwork declining_wallet ''56'' (0, [])) = Returned ()
   \<and> switchNetwork (answering (\<lambda>r. Rejects (Obj True [(''code'', JNum (Fin 4001))]))) ''56'' (0, []) =
       (Threw (Obj True [(''code'', JNum (Fin 4001))]), (1, [wallet_switchEthereumChain ''0x38'']))"
  using switchNetwork_add_chain [where provider = declining_wallet and s = 0 and chainId = "''56''"
      and e = "Obj True [(''code'', JNum (Fin 4902)), (''message'', JStr ''Unrecognized chain ID'')]"
      and ?s1.0 = 1 and log = "[]"
      and n = "\<lparr>net_chainId = ''56'', net_name = ''BNB Smart Chain'', rpcUrl = None,
                blockExplorer = Some ''https://bscscan.com'', currencySymbol = ''BNB''\<rparr>"
      and provider' = "answering (\<lambda>r. Rejects (Obj True [(''code'', JNum (Fin 4001))]))"
      and s' = 0 and chainId' = "''56''" and e' = "Obj True [(''code'', JNum (Fin 4001))]"
      and ?s1' = 1 and c = "JNum (Fin 4001)" and log' = "[]"]
  by (simp add: declining_wallet_def answering_def hexChainId_56 NETWORKS_def addChainParams_def)

section \<open>Chain identifiers and the registry lookups\<close>

lemma is_dec_code: "is_dec c \<longleftrightarrow> 48 \<le> (of_char c :: nat) \<and> (of_char c :: nat) \<le> 57"
  by (auto simp add: is_dec_def is_digit_def digit_value_def Let_def)

lemma digit_char_decimal: "d < 10 \<Longrightarrow> digit_char d \<in> set ''0123456789''"
proof -
  assume "d < 10"
  then have "d \<in> {0, 1, 2, 3, 4, 5, 6, 7, 8, 9}" by auto
  then show ?thesis by (auto simp add: digit_char_def)
qed

lemma digits_decimal: "set (digits 10 n) \<subseteq> set ''0123456789''"
proof (induction "10::nat" n rule: digits.induct)
  case (1 n)
  show ?case
  proof (cases "n < 10")
    case True
    then show ?thesis using digit_char_decimal [of n] by (subst digits.simps) simp
  next
    case False
    have "n mod 10 < 10" by simp
    then have "digit_char (n mod 10) \<in> set ''0123456789''" by (rule digit_char_decimal)
    then show ?thesis using False 1 by (subst digits.simps) simp
  qed
qed

lemma digits_not_prefixed: "take 2 (digits 10 n) \<noteq> ''0x''"
proof
  assume "take 2 (digits 10 n) = ''0x''"
  then have "CHR ''x'' \<in> set (take 2 (digits 10 n))" by simp
  then have "CHR ''x'' \<in> set (digits 10 n)" by (rule in_set_takeD)
  then show False using digits_decimal [of n] by auto
qed

lemma digits_nonempty: "digits b n \<noteq> []"
  by (subst digits.simps) simp

lemma parseInt_hex:
  assumes "h \<noteq> []" and "list_all is_hex_char h"
  shows "parseInt (CHR ''0'' # CHR ''x'' # h) 16 =
           (case toDouble (mathInt 16 h) of None \<Rightarrow> PosInfinity | Some v \<Rightarrow> Fin (int v))"
  using assms by (cases "toDouble (mathInt 16 h)") (simp_all add: parseInt_def is_space_def takeWhile_hex Let_def)

lemma decimalChainId_hex:
  assumes "h \<noteq> []" and "list_all is_hex_char h" and "mathInt 16 h < 2 ^ 53"
  shows "decimalChainId (CHR ''0'' # CHR ''x'' # h) = digits 10 (mathInt 16 h)"
  using assms by (simp add: decimalChainId_def parseInt_hex toDouble_small render_nat_small)

lemma decimalChainId_decimal: "decimalChainId (digits 10 n) = digits 10 n"
  by (simp add: decimalChainId_def digits_not_prefixed)

lemma registered_symbol: "NETWORKS_get x = Entry n \<Longrightarrow> currencySymbol n \<noteq> []"
  by (auto simp add: NETWORKS_get_def NETWORKS_def split: if_splits)

lemma getCurrencySymbol_Some:
  "c \<noteq> [] \<Longrightarrow> getCurrencySymbol (Some c) =
     (case NETWORKS_get (decimalChainId c) of Entry n \<Rightarrow> currencySymbol n | _ \<Rightarrow> ''ETH'')"
  by (auto simp add: getCurrencySymbol_def registered_symbol split: registry_value.splits)

lemma isChainSupported_Some:
  "c \<noteq> [] \<Longrightarrow> isChainSupported (Some c) = (NETWORKS_get (decimalChainId c) \<noteq> Undefined)"
  by (simp add: isChainSupported_def)

lemmas digit_defs = is_hex_char_def mathInt_def digit_value_def digits.simps digit_char_def

text \<open>
  Claim C5. The conversion that \<open>getCurrencySymbol\<close> and \<open>isChainSupported\<close> apply before
  the registry lookup leaves an identifier that does not begin with \<^verbatim>\<open>0x\<close> unchanged and
  maps \<^verbatim>\<open>0x\<close> followed by hexadecimal digits to the rendering of the number they denote
  (below \<open>2\<^sup>5\<^sup>3\<close>: its decimal digits). In particular \<^verbatim>\<open>0x1\<close> and \<^verbatim>\<open>1\<close> both become
  \<^verbatim>\<open>1\<close>, and the two lookups give the same answer on the hexadecimal and on the decimal
  spelling of a chain.
\<close>

theorem chainId_normalization:
  "(take 2 c \<noteq> ''0x'' \<longrightarrow> decimalChainId c = c)
   \<and> (take 2 c = ''0x'' \<longrightarrow> decimalChainId c = Number_toString (parseInt c 16))
   \<and> (h \<noteq> [] \<and> list_all is_hex_char h \<longrightarrow>
        decimalChainId (''0x'' @ h) =
          Number_toString (case toDouble (mathInt 16 h) of None \<Rightarrow> PosInfinity | Some v \<Rightarrow> Fin (int v)))
   \<and> (h \<noteq> [] \<and> list_all is_hex_char h \<and> mathInt 16 h < 2 ^ 53 \<longrightarrow>
        decimalChainId (''0x'' @ h) = digits 10 (mathInt 16 h)
        \<and> decimalChainId (digits 10 (mathInt 16 h)) = digits 10 (mathInt 16 h)
        \<and> getCurrencySymbol (Some (''0x'' @ h)) = getCurrencySymbol (Some (digits 10 (mathInt 16 h)))
        \<and> isChainSupported (Some (''0x'' @ h)) = isChainSupported (Some (digits 10 (mathInt 16 h))))
   \<and> decimalChainId ''0x1'' = ''1'' \<and> decimalChainId ''1'' = ''1''
   \<and> getCurrencySymbol (Some ''0x1'') = getCurrencySymbol (Some ''1'')
   \<and> isChainSupported (Some ''0x1'') = isChainSupported (Some ''1'')
   \<and> (c \<noteq> [] \<longrightarrow> isChainSupported (Some c) = (NETWORKS_get (decimalChainId c) \<noteq> Undefined))
   \<and> (c \<noteq> [] \<longrightarrow> getCurrencySymbol (Some c) =
         (case NETWORKS_get (decimalChainId c) of Entry n \<Rightarrow> currencySymbol n | _ \<Rightarrow> ''ETH''))"
proof -
  have a: "take 2 c \<noteq> ''0x'' \<longrightarrow> decimalChainId c = c"
    by (simp add: decimalChainId_def)
  have a': "take 2 c = ''0x'' \<longrightarrow> decimalChainId c = Number_toString (parseInt c 16)"
    by (simp add: decimalChainId_def)
  have b: "h \<noteq> [] \<and> list_all is_hex_char h \<longrightarrow>
        decimalChainId (''0x'' @ h) =
          Number_toString (case toDouble (mathInt 16 h) of None \<Rightarrow> PosInfinity | Some v \<Rightarrow> Fin (int v))"
    by (simp add: decimalChainId_def parseInt_hex)
  have agree: "getCurrencySymbol (Some (''0x'' @ h)) = getCurrencySymbol (Some (digits 10 (mathInt 16 h)))
      \<and> isChainSupported (Some (''0x'' @ h)) = isChainSupported (Some (digits 10 (mathInt 16 h)))"
    if "h \<noteq> []" "list_all is_hex_char h" "mathInt 16 h < 2 ^ 53" for h
    using that
    by (simp add: getCurrencySymbol_Some isChainSupported_Some digits_nonempty
        decimalChainId_hex decimalChainId_decimal)
  have d: "decimalChainId ''0x1'' = ''1''"
    using decimalChainId_hex [of "''1''"]
    by (simp add: is_hex_char_def mathInt_def digit_value_def digits.simps digit_char_def)
  have d': "decimalChainId ''1'' = ''1''" by (simp add: decimalChainId_def)
  have e: "getCurrencySymbol (Some ''0x1'') = getCurrencySymbol (Some ''1'')
      \<and> isChainSupported (Some ''0x1'') = isChainSupported (Some ''1'')"
    using agree [of "''1''"]
    by (simp add: is_hex_char_def mathInt_def digit_value_def digits.simps digit_char_def)
  show ?thesis
    using a a' b agree [of h] d d' e getCurrencySymbol_Some [of c] isChainSupported_Some [of c]
      decimalChainId_hex [of h] decimalChainId_decimal [of "mathInt 16 h"]
    by simp
qed

theorem chainId_normalization_witness:
  "decimalChainId ''8453'' = ''8453''
   \<and> decimalChainId ''0x2105'' = ''8453''
   \<and> getCurrencySymbol (Some ''0x2105'') = getCurrencySymbol (Some ''8453'')
   \<and> isChainSupported (Some ''0x2105'') = isChainSupported (Some ''8453'')
   \<and> isChainSupported (Some ''8453'')"
proof -
  note n = chainId_normalization [of "''8453''" "''2105''"]
  have h: "''2105'' \<noteq> [] \<and> list_all is_hex_char ''2105'' \<and> mathInt 16 ''2105'' < 2 ^ 53"
    by (simp add: digit_defs)
  have v: "digits 10 (mathInt 16 ''2105'') = ''8453''"
    by (simp add: digit_defs)
  have p: "take 2 ''8453'' \<noteq> ''0x''" by simp
  have 1: "decimalChainId ''8453'' = ''8453''"
    using mp [OF n [THEN conjunct1] p] .
  have 2: "decimalChainId (''0x'' @ ''2105'') = ''8453''
        \<and> decimalChainId ''8453'' = ''8453''
        \<and> getCurrencySymbol (Some (''0x'' @ ''2105'')) = getCurrencySymbol (Some ''8453'')
        \<and> isChainSupported (Some (''0x'' @ ''2105'')) = isChainSupported (Some ''8453'')"
    using mp [OF n [THEN conjunct2, THEN conjunct2, THEN conjunct2, THEN conjunct1] h] unfolding v .
  have 3: "isChainSupported (Some ''8453'')"
    by (simp add: isChainSupported_def 1 NETWORKS_get_def NETWORKS_def)
  show ?thesis using 1 2 3 by simp
qed

text \<open>
  Claim C7. \<open>getCurrencySymbol\<close> returns \<^verbatim>\<open>BNB\<close> for chain \<^verbatim>\<open>56\<close>, the fallback
  \<^verbatim>\<open>ETH\<close> for \<^verbatim>\<open>null\<close>, and the fallback for every identifier whose converted form
  is not a key of the registry.
\<close>

theorem getCurrencySymbol_lookup:
  "getCurrencySymbol (Some ''56'') = ''BNB''
   \<and> getCurrencySymbol None = ''ETH''
   \<and> (decimalChainId c \<notin> fst ` set NETWORKS \<longrightarrow> getCurrencySymbol (Some c) = ''ETH'')"
proof -
  have "getCurrencySymbol (Some c) = ''ETH''" if "decimalChainId c \<notin> fst ` set NETWORKS"
  proof -
    have "map_of NETWORKS (decimalChainId c) = None" using that by (simp add: map_of_eq_None_iff)
    then show ?thesis by (simp add: getCurrencySymbol_def NETWORKS_get_def)
  qed
  moreover have "getCurrencySymbol (Some ''56'') = ''BNB''"
    by (simp add: getCurrencySymbol_def NETWORKS_get_def decimalChainId_def NETWORKS_def)
  ultimately show ?thesis by (simp add: getCurrencySymbol_def)
qed


theorem getCurrencySymbol_lookup_witness:
  "getCurrencySymbol (Some ''0x89'') = ''ETH''"
  using getCurrencySymbol_lookup [of "''0x89''"] decimalChainId_hex [of "''89''"]
  by (simp add: digit_defs NETWORKS_def)

section \<open>The identifiers that reach switchNetwork\<close>

lemma strip_zeros_subset: "set (strip_zeros ds) \<subseteq> set ds"
  by (auto simp add: strip_zeros_def dest: set_dropWhileD)

lemma render_nat_head: "render_nat x \<noteq> [] \<and> hd (render_nat x) \<in> set ''0123456789''"
proof -
  define ds where "ds = digits 10 (shortest x (length (digits 10 x) - 1))"
  have ne: "ds \<noteq> []" unfolding ds_def by (rule digits_nonempty)
  have dec: "set ds \<subseteq> set ''0123456789''" unfolding ds_def by (rule digits_decimal)
  have h: "hd ds \<in> set ''0123456789''" using ne dec by (cases ds) auto
  have r: "render_nat x =
      (if length ds \<le> 21 then ds
       else (case strip_zeros ds of
               [] \<Rightarrow> ds
             | c # cs \<Rightarrow> (if cs = [] then [c] else c # CHR ''.'' # cs) @ ''e+'' @ digits 10 (length ds - 1)))"
    by (simp only: render_nat_def Let_def ds_def)
  show ?thesis
  proof (cases "length ds \<le> 21")
    case True
    then show ?thesis using ne h by (simp add: r)
  next
    case False
    show ?thesis
    proof (cases "strip_zeros ds")
      case Nil
      then show ?thesis using False ne h by (simp add: r)
    next
      case (Cons c cs)
      then have "c \<in> set ds" using strip_zeros_subset [of ds] by auto
      then have "c \<in> set ''0123456789''" using dec by blast
      then show ?thesis using False Cons by (simp add: r)
    qed
  qed
qed

lemma Number_toString_head:
  "Number_toString n \<noteq> [] \<and> hd (Number_toString n) \<in> set ''0123456789NI-''"
  using render_nat_head by (cases n) auto

lemma inherited_name_head:
  "k \<in> set Object_prototype_names \<Longrightarrow> hd k \<in> set ''chiptv_''"
  by (auto simp add: Object_prototype_names_def)

lemma Number_toString_not_inherited: "Number_toString n \<notin> set Object_prototype_names"
  using Number_toString_head [of n] inherited_name_head [of "Number_toString n"] by auto

lemma digits_not_inherited:
  assumes "v \<noteq> []" and "list_all is_dec v"
  shows "v \<notin> set Object_prototype_names"
proof
  assume "v \<in> set Object_prototype_names"
  then have "hd v \<in> set ''chiptv_''" by (rule inherited_name_head)
  moreover have "is_dec (hd v)" using assms by (cases v) auto
  ultimately show False by (auto simp add: is_dec_code)
qed


lemma switchNetwork_undefined_lookup:
  assumes "provider s (wallet_switchEthereumChain (hexChainId chainId)) = (Rejects e, s1)"
    and "code_of e = Inr (JNum (Fin 4902))"
    and "chainId \<notin> fst ` set NETWORKS" and "chainId \<notin> set Object_prototype_names"
  shows "switchNetwork provider chainId (s, log) =
           (Returned (), (s1, log @ [wallet_switchEthereumChain (hexChainId chainId)]))"
proof -
  have "map_of NETWORKS chainId = None" using assms(3) by (simp add: map_of_eq_None_iff)
  then have "NETWORKS_get chainId = Undefined" using assms(4) by (simp add: NETWORKS_get_def)
  then show ?thesis using assms(1,2) by (simp add: switchNetwork_def io_defs)
qed

text \<open>
  Claim C10. If the provider rejects \<^verbatim>\<open>wallet_switchEthereumChain\<close> with code 4902 and
  the target chain identifier is not a key of \<^verbatim>\<open>NETWORKS\<close>, then \<open>switchNetwork\<close> returns
  without error and the switch request is the only request it issues: no
  \<^verbatim>\<open>wallet_addEthereumChain\<close>, no retry. This holds for every identifier that names no
  property inherited from \<^verbatim>\<open>Object.prototype\<close>, and no identifier that reaches
  \<open>switchNetwork\<close> does: the header passes keys of the registry and renderings of numbers
  (\<open>handleChainChanged\<close>), and neither a rendering of a number nor a string of digits is
  such a name.
\<close>

theorem switchNetwork_unregistered:
  "(provider s (wallet_switchEthereumChain (hexChainId chainId)) = (Rejects e, s1) \<and>
    code_of e = Inr (JNum (Fin 4902)) \<and>
    chainId \<notin> fst ` set NETWORKS \<and> chainId \<notin> set Object_prototype_names \<longrightarrow>
      switchNetwork provider chainId (s, log) =
        (Returned (), (s1, log @ [wallet_switchEthereumChain (hexChainId chainId)])))
   \<and> Number_toString n \<notin> set Object_prototype_names
   \<and> handleChainChanged x \<notin> set Object_prototype_names
   \<and> (v \<noteq> [] \<and> list_all is_dec v \<longrightarrow> v \<notin> set Object_prototype_names)
   \<and> (provider' s' (wallet_switchEthereumChain (hexChainId (handleChainChanged x))) = (Rejects e', s1') \<and>
      code_of e' = Inr (JNum (Fin 4902)) \<and> handleChainChanged x \<notin> fst ` set NETWORKS \<longrightarrow>
        switchNetwork provider' (handleChainChanged x) (s', log') =
          (Returned (), (s1', log' @ [wallet_switchEthereumChain (hexChainId (handleChainChanged x))])))"
proof -
  have h: "handleChainChanged x \<notin> set Object_prototype_names"
    unfolding handleChainChanged_def by (rule Number_toString_not_inherited)
  show ?thesis
    using switchNetwork_undefined_lookup [of provider s chainId e s1 log]
      switchNetwork_undefined_lookup [of provider' s' "handleChainChanged x" e' s1' log', OF _ _ _ h]
      Number_toString_not_inherited [of n] h digits_not_inherited [of v]
    by blast
qed

lemma handleChainChanged_137: "handleChainChanged ''0x89'' = ''137''"
  using decimalChainId_hex [of "''89''"]
  by (simp add: handleChainChanged_def decimalChainId_def digit_defs)

theorem switchNetwork_unregistered_witness:
  "handleChainChanged ''0x89'' = ''137''
   \<and> ''137'' \<notin> fst ` set NETWORKS
   \<and> switchNetwork declining_wallet ''137'' (0, []) =
     (Returned (), (1, [wallet_switchEthereumChain ''0x89'']))"
proof -
  note t = switchNetwork_unregistered [where provider' = declining_wallet and s' = 0 and x = "''0x89''"
      and e' = "Obj True [(''code'', JNum (Fin 4902)), (''message'', JStr ''Unrecognized chain ID'')]"
      and ?s1' = 1 and log' = "[]",
      THEN conjunct2, THEN conjunct2, THEN conjunct2, THEN conjunct2]
  have k: "''137'' \<notin> fst ` set NETWORKS" by (simp add: NETWORKS_def)
  have "declining_wallet 0 (wallet_switchEthereumChain (hexChainId (handleChainChanged ''0x89''))) =
      (Rejects (Obj True [(''code'', JNum (Fin 4902)), (''message'', JStr ''Unrecognized chain ID'')]), 1)
    \<and> code_of (Obj True [(''code'', JNum (Fin 4902)), (''message'', JStr ''Unrecognized chain ID'')])
        = Inr (JNum (Fin 4902))
    \<and> handleChainChanged ''0x89'' \<notin> fst ` set NETWORKS"
    using k by (simp add: handleChainChanged_137 declining_wallet_def answering_def)
  from mp [OF t this] show ?thesis
    using k by (simp add: handleChainChanged_137 hexChainId_137)
qed

text \<open>
  The hypothesis on inherited names is needed for the function on its own: on
  \<^verbatim>\<open>constructor\<close>, which no caller passes, the lookup finds the inherited function, the
  guard \<^verbatim>\<open>if (network)\<close> passes and an add request is issued.
\<close>

lemma hexChainId_constructor: "hexChainId ''constructor'' = ''0xNaN''"
  by (simp add: hexChainId_def parse_defs)

lemma switchNetwork_inherited_name:
  "''constructor'' \<notin> fst ` set NETWORKS
   \<and> declining_wallet 0 (wallet_switchEthereumChain (hexChainId ''constructor'')) =
      (Rejects (Obj True [(''code'', JNum (Fin 4902)), (''message'', JStr ''Unrecognized chain ID'')]), 1)
   \<and> switchNetwork declining_wallet ''constructor'' (0, []) =
      (Returned (), (2, [wallet_switchEthereumChain ''0xNaN'',
           wallet_addEthereumChain
             \<lparr>add_chainId = ''0xNaN'', chainName = JStr ''Object'',
              nativeCurrency_name = JUndefined, nativeCurrency_symbol = JUndefined,
              nativeCurrency_decimals = 18, rpcUrls = [JUndefined],
              blockExplorerUrls = []\<rparr>]))"
  by (simp add: switchNetwork_def io_defs declining_wallet_def answering_def hexChainId_constructor
      NETWORKS_get_def NETWORKS_def Object_prototype_names_def addChainParams_def)

section \<open>Connecting\<close>

text \<open>
  Claim C6. \<open>connectWallet\<close> throws when no provider is detected, and when both the
  account query and the authorization request yield no account. With a provider it
  issues \<^verbatim>\<open>eth_accounts\<close> first, and issues \<^verbatim>\<open>eth_requestAccounts\<close> exactly when the
  first answer is not a non-empty list. On success it returns the provider, the first
  account and the chain identifier, which is the answer to \<^verbatim>\<open>eth_chainId\<close> parsed in
  base 16 and rendered as a number (for \<^verbatim>\<open>0x\<close> and hexadecimal digits below \<open>2\<^sup>5\<^sup>3\<close>: its
  decimal digits).
\<close>

theorem connectWallet_contract:
  "(fst (detectRabbyWallet env) = None \<longrightarrow>
      fst (connectWallet env w) =
        (Threw (Error ''Rabby wallet not detected. Please install Rabby wallet extension.''), w))
   \<and> (fst (detectRabbyWallet env) = Some provider \<longrightarrow>
        (\<exists>rest. snd (snd (fst (connectWallet env (s, log)))) = log @ eth_accounts # rest
           \<and> (eth_requestAccounts \<in> set rest \<longleftrightarrow>
                (\<exists>current s1. provider s eth_accounts = (Resolves current, s1)
                    \<and> (truthy current \<and> length_positive current) = False))))
   \<and> (fst (detectRabbyWallet env) = Some provider \<and>
      provider s eth_accounts = (Resolves (JArr (a # as)), s1) \<and>
      provider s1 eth_chainId = (Resolves hexId, s2) \<longrightarrow>
        fst (connectWallet env (s, log)) =
          (Returned \<lparr>conn_provider = provider, conn_account = a,
                     conn_chainId = Number_toString (parseInt (ToString hexId) 16)\<rparr>,
           (s2, log @ [eth_accounts, eth_chainId])))
   \<and> (fst (detectRabbyWallet env) = Some provider \<and>
      provider s eth_accounts = (Resolves (JArr []), s1) \<and>
      provider s1 eth_requestAccounts = (Resolves (JArr (a # as)), s2) \<and>
      provider s2 eth_chainId = (Resolves hexId, s3) \<longrightarrow>
        fst (connectWallet env (s, log)) =
          (Returned \<lparr>conn_provider = provider, conn_account = a,
                     conn_chainId = Number_toString (parseInt (ToString hexId) 16)\<rparr>,
           (s3, log @ [eth_accounts, eth_requestAccounts, eth_chainId])))
   \<and> (fst (detectRabbyWallet env) = Some provider \<and>
      provider s eth_accounts = (Resolves (JArr []), s1) \<and>
      provider s1 eth_requestAccounts = (Resolves (JArr []), s2) \<longrightarrow>
        fst (connectWallet env (s, log)) =
          (Threw (Error ''Failed to connect to Rabby wallet: No accounts found. Please unlock your Rabby wallet.''),
           (s2, log @ [eth_accounts, eth_requestAccounts])))
   \<and> (h \<noteq> [] \<and> list_all is_hex_char h \<and> mathInt 16 h < 2 ^ 53 \<longrightarrow>
        Number_toString (parseInt (ToString (JStr (''0x'' @ h))) 16) = digits 10 (mathInt 16 h))"
proof -
  have none: "fst (detectRabbyWallet env) = None \<longrightarrow>
      fst (connectWallet env w) =
        (Threw (Error ''Rabby wallet not detected. Please install Rabby wallet extension.''), w)"
    by (cases "detectRabbyWallet env") (auto simp add: connectWallet_def split: option.splits)
  have run: "fst (connectWallet env x) = connect_with provider x"
    if "fst (detectRabbyWallet env) = Some provider" for x
    using that by (cases "detectRabbyWallet env") (auto simp add: connectWallet_def split: option.splits)
  have order: "\<exists>rest. snd (snd (connect_with provider (s, log))) = log @ eth_accounts # rest
           \<and> (eth_requestAccounts \<in> set rest \<longleftrightarrow>
                (\<exists>current s1. provider s eth_accounts = (Resolves current, s1)
                    \<and> (truthy current \<and> length_positive current) = False))"
    by (auto simp add: connect_with_def io_defs split: prod.splits reply.splits)
  have known: "provider s eth_accounts = (Resolves (JArr (a # as)), s1) \<and>
      provider s1 eth_chainId = (Resolves hexId, s2) \<longrightarrow>
        connect_with provider (s, log) =
          (Returned \<lparr>conn_provider = provider, conn_account = a,
                     conn_chainId = Number_toString (parseInt (ToString hexId) 16)\<rparr>,
           (s2, log @ [eth_accounts, eth_chainId]))"
    by (simp add: connect_with_def io_defs length_positive_def length_zero_def)
  have asked: "provider s eth_accounts = (Resolves (JArr []), s1) \<and>
      provider s1 eth_requestAccounts = (Resolves (JArr (a # as)), s2) \<and>
      provider s2 eth_chainId = (Resolves hexId, s3) \<longrightarrow>
        connect_with provider (s, log) =
          (Returned \<lparr>conn_provider = provider, conn_account = a,
                     conn_chainId = Number_toString (parseInt (ToString hexId) 16)\<rparr>,
           (s3, log @ [eth_accounts, eth_requestAccounts, eth_chainId]))"
    by (simp add: connect_with_def io_defs length_positive_def length_zero_def)
  have zero: "provider s eth_accounts = (Resolves (JArr []), s1) \<and>
      provider s1 eth_requestAccounts = (Resolves (JArr []), s2) \<longrightarrow>
        connect_with provider (s, log) =
          (Threw (Error ''Failed to connect to Rabby wallet: No accounts found. Please unlock your Rabby wallet.''),
           (s2, log @ [eth_accounts, eth_requestAccounts]))"
    by (simp add: connect_with_def io_defs length_positive_def length_zero_def Error_def)
  have norm: "h \<noteq> [] \<and> list_all is_hex_char h \<and> mathInt 16 h < 2 ^ 53 \<longrightarrow>
        Number_toString (parseInt (ToString (JStr (''0x'' @ h))) 16) = digits 10 (mathInt 16 h)"
    by (simp add: parseInt_hex toDouble_small render_nat_small)
  show ?thesis
    using none order known asked zero norm by (simp add: run)
qed


theorem connectWallet_witness:
  "fst (connectWallet \<lparr>cachedProvider = None,
          window = Some \<lparr>rabby = None, ethereum = Some (declining_wallet, True)\<rparr>\<rparr> (0, [])) =
     (Returned \<lparr>conn_provider = declining_wallet,
                conn_account = JStr ''0xd8dA6BF26964aF9D7eEd9e03E53415D37aA96045'',
                conn_chainId = ''56''\<rparr>, (2, [eth_accounts, eth_chainId]))
   \<and> fst (connectWallet \<lparr>cachedProvider = None, window = None\<rparr> (0 :: nat, [])) =
     (Threw (Error ''Rabby wallet not detected. Please install Rabby wallet extension.''), (0, []))
   \<and> fst (connectWallet \<lparr>cachedProvider = Some (answering (\<lambda>r. Resolves (JArr []))), window = None\<rparr> (0, [])) =
     (Threw (Error ''Failed to connect to Rabby wallet: No accounts found. Please unlock your Rabby wallet.''),
      (2, [eth_accounts, eth_requestAccounts]))
   \<and> fst (connectWallet \<lparr>cachedProvider = None,
          window = Some \<lparr>rabby = Some (answering (\<lambda>r. case r of eth_accounts \<Rightarrow> Resolves (JArr [])
                                | eth_chainId \<Rightarrow> Resolves (JStr ''0x1'')
                                | _ \<Rightarrow> Resolves (JArr [JStr ''0xd8dA6BF26964aF9D7eEd9e03E53415D37aA96045'']))),
                         ethereum = None\<rparr>\<rparr> (0, [])) =
     (Returned \<lparr>conn_provider = answering (\<lambda>r. case r of eth_accounts \<Rightarrow> Resolves (JArr [])
                                | eth_chainId \<Rightarrow> Resolves (JStr ''0x1'')
                                | _ \<Rightarrow> Resolves (JArr [JStr ''0xd8dA6BF26964aF9D7eEd9e03E53415D37aA96045''])),
                conn_account = JStr ''0xd8dA6BF26964aF9D7eEd9e03E53415D37aA96045'',
                conn_chainId = ''1''\<rparr>, (3, [eth_accounts, eth_requestAccounts, eth_chainId]))"
  using connectWallet_contract [where env = "\<lparr>cachedProvider = None,
          window = Some \<lparr>rabby = None, ethereum = Some (declining_wallet, True)\<rparr>\<rparr>"
        and provider = declining_wallet and s = 0 and log = "[]"
        and a = "JStr ''0xd8dA6BF26964aF9D7eEd9e03E53415D37aA96045''" and as = "[]" and ?s1.0 = 1
        and hexId = "JStr ''0x38''" and ?s2.0 = 2 and h = "''38''"]
    connectWallet_contract [where env = "\<lparr>cachedProvider = None, window = None\<rparr>" and w = "(0 :: nat, [])"]
    connectWallet_contract [where env = "\<lparr>cachedProvider = Some (answering (\<lambda>r. Resolves (JArr []))), window = None\<rparr>"
        and provider = "answering (\<lambda>r. Resolves (JArr []))" and s = 0 and log = "[]" and ?s1.0 = 1 and ?s2.0 = 2]
    connectWallet_contract [where env = "\<lparr>cachedProvider = None,
          window = Some \<lparr>rabby = Some (answering (\<lambda>r. case r of eth_accounts \<Rightarrow> Resolves (JArr [])
                                | eth_chainId \<Rightarrow> Resolves (JStr ''0x1'')
                                | _ \<Rightarrow> Resolves (JArr [JStr ''0xd8dA6BF26964aF9D7eEd9e03E53415D37aA96045'']))),
                         ethereum = None\<rparr>\<rparr>"
        and provider = "answering (\<lambda>r. case r of eth_accounts \<Rightarrow> Resolves (JArr [])
                                | eth_chainId \<Rightarrow> Resolves (JStr ''0x1'')
                                | _ \<Rightarrow> Resolves (JArr [JStr ''0xd8dA6BF26964aF9D7eEd9e03E53415D37aA96045'']))"
        and s = 0 and log = "[]" and a = "JStr ''0xd8dA6BF26964aF9D7eEd9e03E53415D37aA96045''" and as = "[]"
        and ?s1.0 = 1 and ?s2.0 = 2 and ?s3.0 = 3 and hexId = "JStr ''0x1''" and h = "''1''"]
  by (simp add: detectRabbyWallet_def declining_wallet_def answering_def digit_defs)


section \<open>Amounts: decimal strings, base units and the submitted value\<close>

lemma foldl_digits:
  "foldl (\<lambda>acc c. acc * R + the (digit_value c)) acc b =
     acc * R ^ length b + foldl (\<lambda>acc c. acc * R + the (digit_value c)) 0 b"
proof (induction b arbitrary: acc)
  case Nil
  show ?case by simp
next
  case (Cons c b)
  let ?f = "\<lambda>acc c. acc * R + the (digit_value c)"
  have e1: "foldl ?f (acc * R + the (digit_value c)) b =
      (acc * R + the (digit_value c)) * R ^ length b + foldl ?f 0 b"
    by (rule Cons.IH)
  have e2: "foldl ?f (the (digit_value c)) b = the (digit_value c) * R ^ length b + foldl ?f 0 b"
    by (rule Cons.IH)
  show ?case by (simp add: e1 e2) (simp add: algebra_simps)
qed

lemma mathInt_append: "mathInt R (a @ b) = mathInt R a * R ^ length b + mathInt R b"
  by (simp add: mathInt_def foldl_digits [of R "foldl (\<lambda>acc c. acc * R + the (digit_value c)) 0 a" b])

lemma mathInt_Nil: "mathInt R [] = 0"
  by (simp add: mathInt_def)

lemma mathInt_single: "mathInt R [c] = the (digit_value c)"
  by (simp add: mathInt_def)

lemma mathInt_bound: "list_all (is_digit R) b \<Longrightarrow> mathInt R b < R ^ length b"
proof (induction b rule: rev_induct)
  case Nil
  show ?case by (simp add: mathInt_Nil)
next
  case (snoc c b)
  then have b: "mathInt R b < R ^ length b" by simp
  obtain d where d: "digit_value c = Some d" "d < R"
    using snoc.prems by (auto simp add: is_digit_def split: option.splits)
  have "mathInt R b + 1 \<le> R ^ length b" using b by simp
  then have "(mathInt R b + 1) * R \<le> R ^ length b * R" by (rule mult_le_mono1)
  then have "mathInt R b * R + d < R ^ length b * R" using d(2) by (simp add: algebra_simps)
  then show ?case by (simp add: mathInt_append mathInt_single d mult.commute)
qed

lemma dec_digit_char:
  assumes "is_dec c"
  shows "digit_char (the (digit_value c)) = c" and "the (digit_value c) < 10"
    and "the (digit_value c) = 0 \<longleftrightarrow> c = CHR ''0''"
proof -
  define n :: nat where "n = of_char c"
  have c: "c = char_of n" by (simp add: n_def)
  have r: "48 \<le> n \<and> n \<le> 57"
    using assms unfolding is_dec_def is_digit_def digit_value_def n_def [symmetric]
    by (auto simp add: Let_def split: if_splits)
  then have "n \<in> {48, 49, 50, 51, 52, 53, 54, 55, 56, 57}" by (simp, arith)
  then have v: "the (digit_value c) = n - 48"
    unfolding digit_value_def n_def [symmetric] by (auto simp add: Let_def)
  show "the (digit_value c) < 10" using v r by auto
  have "(of_char (digit_char (n - 48)) :: nat) = n"
    using \<open>n \<in> _\<close> by (auto simp add: digit_char_def)
  then show "digit_char (the (digit_value c)) = c"
    by (simp add: v char_eq_code [of "digit_char (n - 48)" c] n_def)
  have "c = CHR ''0'' \<longleftrightarrow> n = 48" by (simp add: char_eq_code [of c] n_def)
  then show "the (digit_value c) = 0 \<longleftrightarrow> c = CHR ''0''" using r by (simp add: v) arith
qed

lemma digits_snoc:
  "d < 10 \<Longrightarrow> digits 10 (m * 10 + d) = (if m = 0 then [digit_char d] else digits 10 m @ [digit_char d])"
  by (subst digits.simps) auto

lemma mathInt_zeros: "dropWhile (\<lambda>c. c = CHR ''0'') a = [] \<Longrightarrow> mathInt 10 a = 0"
proof (induction a rule: rev_induct)
  case Nil
  show ?case by (simp add: mathInt_Nil)
next
  case (snoc c a)
  then have "dropWhile (\<lambda>c. c = CHR ''0'') a = []" and "c = CHR ''0''"
    by (auto simp add: dropWhile_append split: if_splits)
  then show ?case using snoc.IH by (simp add: mathInt_append mathInt_single digit_value_def)
qed

lemma mathInt_nonzero:
  assumes "list_all is_dec a" and "dropWhile (\<lambda>c. c = CHR ''0'') a \<noteq> []"
  shows "mathInt 10 a \<noteq> 0"
proof -
  obtain c r where cr: "dropWhile (\<lambda>c. c = CHR ''0'') a = c # r"
    using assms(2) by (cases "dropWhile (\<lambda>c. c = CHR ''0'') a") auto
  have c0: "c \<noteq> CHR ''0''" using hd_dropWhile [OF assms(2)] cr by simp
  have "c \<in> set a" using cr by (metis list.set_intros(1) set_dropWhileD)
  then have "is_dec c" using assms(1) by (simp add: list_all_iff)
  then have d: "the (digit_value c) \<noteq> 0" using dec_digit_char(3) [of c] c0 by simp
  have a: "a = takeWhile (\<lambda>c. c = CHR ''0'') a @ [c] @ r"
    using cr by (metis append_Cons append_Nil takeWhile_dropWhile_id)
  have "mathInt 10 ([c] @ r) \<noteq> 0" using d by (simp only: mathInt_append mathInt_single; simp)
  then have "mathInt 10 (takeWhile (\<lambda>c. c = CHR ''0'') a @ ([c] @ r)) \<noteq> 0"
    by (simp only: mathInt_append [of 10 "takeWhile (\<lambda>c. c = CHR ''0'') a"]; simp)
  then show ?thesis using a by simp
qed

lemma digits_mathInt:
  "list_all is_dec a \<Longrightarrow> digits 10 (mathInt 10 a) = keep_one (dropWhile (\<lambda>c. c = CHR ''0'') a)"
proof (induction a rule: rev_induct)
  case Nil
  show ?case by (simp add: mathInt_Nil keep_one_def digits.simps digit_char_def)
next
  case (snoc c a)
  then have ih: "digits 10 (mathInt 10 a) = keep_one (dropWhile (\<lambda>c. c = CHR ''0'') a)"
    and c: "is_dec c" by simp_all
  note dc = dec_digit_char [OF c]
  show ?case
  proof (cases "dropWhile (\<lambda>c. c = CHR ''0'') a = []")
    case True
    then have "mathInt 10 a = 0" by (rule mathInt_zeros)
    then show ?thesis using True dc
      by (simp add: mathInt_append mathInt_single digits_snoc [of _ 0, simplified] keep_one_def dropWhile_append)
  next
    case False
    then have nz: "mathInt 10 a \<noteq> 0"
      using snoc.prems by (intro mathInt_nonzero) simp_all
    show ?thesis using False nz dc ih
      by (simp add: mathInt_append mathInt_single digits_snoc keep_one_def dropWhile_append)
  qed
qed


lemma digit_value_digit_char: "d < 16 \<Longrightarrow> digit_value (digit_char d) = Some d"
proof -
  assume "d < 16"
  then have "d \<in> {0, 1, 2, 3, 4, 5, 6, 7, 8, 9, 10, 11, 12, 13, 14, 15}" by (simp, arith)
  then show ?thesis by (auto simp add: digit_char_def digit_value_def)
qed

lemma mathInt_digits:
  assumes "2 \<le> b" and "b \<le> 16"
  shows "mathInt b (digits b n) = n \<and> list_all (is_digit b) (digits b n)"
  using assms
proof (induction b n rule: digits.induct)
  case (1 b n)
  show ?case
  proof (cases "n < b")
    case True
    then have "n < 16" using 1(3) by simp
    then show ?thesis using True
      by (subst (1 2) digits.simps) (simp add: mathInt_single digit_value_digit_char is_digit_def)
  next
    case False
    have m: "n mod b < 16" "n mod b < b"
      using 1(2,3) by (auto intro: less_le_trans [of _ b])
    have ih: "mathInt b (digits b (n div b)) = n div b \<and> list_all (is_digit b) (digits b (n div b))"
      using 1 False by simp
    show ?thesis using False 1(2) m ih
      by (subst (1 2) digits.simps)
         (simp add: mathInt_append mathInt_single digit_value_digit_char is_digit_def)
  qed
qed

lemma takeWhile_replicate: "takeWhile (\<lambda>c. c = x) a = replicate (length (takeWhile (\<lambda>c. c = x) a)) x"
  by (induction a) simp_all

lemma pad_digits:
  assumes "a \<noteq> []"
  shows "replicate (length a - length (keep_one (dropWhile (\<lambda>c. c = CHR ''0'') a))) CHR ''0''
           @ keep_one (dropWhile (\<lambda>c. c = CHR ''0'') a) = a"
proof (cases "dropWhile (\<lambda>c. c = CHR ''0'') a = []")
  case True
  then have "\<forall>c\<in>set a. c = CHR ''0''" by (simp add: dropWhile_eq_Nil_conv)
  then have "replicate (length a) CHR ''0'' = a" by (simp add: replicate_length_same)
  moreover obtain k where k: "length a = Suc k" using assms by (cases a) auto
  ultimately have a: "a = replicate (Suc k) CHR ''0''" by simp
  have "replicate k CHR ''0'' @ ''0'' = replicate (Suc k) CHR ''0''"
    by (simp only: replicate_append_same) simp
  then show ?thesis unfolding a by (simp add: keep_one_def)
next
  case False
  have "length a = length (takeWhile (\<lambda>c. c = CHR ''0'') a) + length (dropWhile (\<lambda>c. c = CHR ''0'') a)"
    by (metis length_append takeWhile_dropWhile_id)
  then have "length a - length (dropWhile (\<lambda>c. c = CHR ''0'') a) = length (takeWhile (\<lambda>c. c = CHR ''0'') a)"
    by simp
  moreover have "keep_one (dropWhile (\<lambda>c. c = CHR ''0'') a) = dropWhile (\<lambda>c. c = CHR ''0'') a"
    using False by (simp only: keep_one_def if_False)
  moreover have "replicate (length (takeWhile (\<lambda>c. c = CHR ''0'') a)) CHR ''0''
      @ dropWhile (\<lambda>c. c = CHR ''0'') a = a"
    using takeWhile_replicate [of "CHR ''0''" a] by (metis takeWhile_dropWhile_id)
  ultimately show ?thesis by (simp only:)
qed

lemma dropWhile_replicate: "dropWhile (\<lambda>c. c = x) (replicate k x @ ys) = dropWhile (\<lambda>c. c = x) ys"
  by (induction k) simp_all

lemma strip_zeros_padding: "strip_zeros (f @ replicate k CHR ''0'') = strip_zeros f"
  by (simp add: strip_zeros_def dropWhile_replicate)

lemma is_dec_chars: "c \<in> set ''0123456789'' \<Longrightarrow> is_dec c"
  by (auto simp add: is_dec_def is_digit_def digit_value_def)

lemma digits_is_dec: "list_all is_dec (digits 10 n)"
  using digits_decimal [of n] is_dec_chars by (auto simp add: list_all_iff)

lemma split_amount_Some:
  assumes "split_amount x = Some (w, f)"
  shows "list_all is_dec w" and "list_all is_dec f" and "w @ f \<noteq> []" and "x \<noteq> []" and "x \<noteq> ''.''"
proof -
  have w: "w = takeWhile is_dec x" and f: "list_all is_dec f" and n: "w @ f \<noteq> []"
    and r: "f = (if dropWhile is_dec x = [] then [] else tl (dropWhile is_dec x))"
    using assms by (auto simp add: split_amount_def Let_def split: if_splits)
  show "list_all is_dec w" unfolding w by (simp add: list_all_iff) (metis set_takeWhileD)
  show "list_all is_dec f" by (rule f)
  show "w @ f \<noteq> []" by (rule n)
  show "x \<noteq> []" using n w r by auto
  show "x \<noteq> ''.''" using n w r by (auto simp add: is_dec_def is_digit_def digit_value_def)
qed



lemma baseUnits_value:
  assumes "split_amount x = Some (w, f)" and "length f \<le> 18"
  shows "baseUnits x =
    Some (mathInt 10 w * 10 ^ 18 + mathInt 10 (f @ replicate (18 - length f) CHR ''0''))"
  using assms by (simp add: baseUnits_def)

lemma fromBaseUnits_digits:
  assumes "list_all is_dec w" and "list_all is_dec fz" and "length fz = 18"
  shows "fromBaseUnits (digits 10 (mathInt 10 w * 10 ^ 18 + mathInt 10 fz)) =
    Some (keep_one (dropWhile (\<lambda>c. c = CHR ''0'') w) @ CHR ''.'' # keep_one (strip_zeros fz))"
proof -
  define N where "N = mathInt 10 w * 10 ^ 18 + mathInt 10 fz"
  have lt: "mathInt 10 fz < 10 ^ 18"
    using mathInt_bound [of 10 fz] assms(2,3) by (simp add: is_dec_def [abs_def])
  have dv: "N div 10 ^ 18 = mathInt 10 w" using lt by (simp add: N_def)
  have md: "N mod 10 ^ 18 = mathInt 10 fz" using lt by (simp add: N_def)
  have parsed: "mathInt 10 (digits 10 N) = N" using mathInt_digits [of 10 N] by simp
  have ne: "digits 10 N \<noteq> []" by (rule digits_nonempty)
  have fz: "fz \<noteq> []" using assms(3) by auto
  have frac: "replicate (18 - length (digits 10 (mathInt 10 fz))) CHR ''0'' @ digits 10 (mathInt 10 fz) = fz"
    using pad_digits [OF fz] assms(3) by (simp add: digits_mathInt [OF assms(2)])
  have "fromBaseUnits (digits 10 N) =
      Some (digits 10 (N div 10 ^ 18) @ CHR ''.'' #
        keep_one (strip_zeros (replicate (18 - length (digits 10 (N mod 10 ^ 18))) CHR ''0''
           @ digits 10 (N mod 10 ^ 18))))"
    using ne digits_is_dec [of N] unfolding fromBaseUnits_def Let_def parsed by (simp only: if_True simp_thms)
  then show ?thesis
    unfolding dv md frac N_def [symmetric] by (simp only: digits_mathInt [OF assms(1)])
qed

lemma parseEther_spec:
  "map_option BigInt_toString (parseEther spec_ethers y) = toBaseUnits y"
  by (cases "baseUnits y") (simp_all add: spec_ethers_def toBaseUnits_def BigInt_toString_def)

lemma round_trip:
  assumes "split_amount x = Some (w, f)" and "length f \<le> 18"
  shows "\<exists>n. toBaseUnits x = Some n \<and> fromBaseUnits n = Some (canonical x)
           \<and> map_option BigInt_toString (parseEther spec_ethers x) = Some n"
proof -
  note parts = split_amount_Some [OF assms(1)]
  define fz where "fz = f @ replicate (18 - length f) CHR ''0''"
  have fz: "list_all is_dec fz" "length fz = 18"
    using parts(2) assms(2) by (auto simp add: fz_def list_all_iff is_dec_def is_digit_def digit_value_def)
  have b: "baseUnits x = Some (mathInt 10 w * 10 ^ 18 + mathInt 10 fz)"
    unfolding fz_def by (rule baseUnits_value [OF assms])
  have c: "canonical x = keep_one (dropWhile (\<lambda>c. c = CHR ''0'') w) @ CHR ''.'' # keep_one (strip_zeros fz)"
    by (simp add: canonical_def assms(1) fz_def strip_zeros_padding)
  show ?thesis
    using fromBaseUnits_digits [OF parts(1) fz]
    by (simp add: toBaseUnits_def b c parseEther_spec)
qed

lemma mathInt_Cons: "mathInt R (c # r) = the (digit_value c) * R ^ length r + mathInt R r"
  using mathInt_append [of R "[c]" r] by (simp add: mathInt_single)

lemma mathInt_replicate_zero: "mathInt 10 (replicate k CHR ''0'') = 0"
  by (induction k) (simp_all add: mathInt_Nil mathInt_Cons digit_value_def)

lemma one_ether: "toBaseUnits ''1.0'' = Some ''1000000000000000000''"
proof -
  have s: "split_amount ''1.0'' = Some (''1'', ''0'')"
    by (simp add: split_amount_def is_dec_def is_digit_def digit_value_def)
  have "baseUnits ''1.0'' =
      Some (mathInt 10 ''1'' * 10 ^ 18 + mathInt 10 (''0'' @ replicate (18 - length ''0'') CHR ''0''))"
    by (rule baseUnits_value [OF s]) simp
  moreover have "mathInt 10 ''1'' * 10 ^ 18 + mathInt 10 (''0'' @ replicate (18 - length ''0'') CHR ''0'')
      = 1000000000000000000"
    by (simp add: mathInt_Cons mathInt_Nil mathInt_replicate_zero digit_value_def)
  moreover have "digits 10 1000000000000000000 = ''1000000000000000000''"
    by (simp add: digits.simps digit_char_def)
  ultimately show ?thesis by (simp add: toBaseUnits_def)
qed

lemma mathInt_keep_one:
  assumes "list_all is_dec w"
  shows "mathInt 10 (keep_one (dropWhile (\<lambda>c. c = CHR ''0'') w)) = mathInt 10 w"
  using mathInt_digits [of 10 "mathInt 10 w"] by (simp add: digits_mathInt [OF assms])

lemma strip_zeros_split: "f = strip_zeros f @ replicate (length f - length (strip_zeros f)) CHR ''0''"
proof -
  have "rev f = takeWhile (\<lambda>c. c = CHR ''0'') (rev f) @ dropWhile (\<lambda>c. c = CHR ''0'') (rev f)"
    by simp
  then have "f = rev (dropWhile (\<lambda>c. c = CHR ''0'') (rev f)) @ rev (takeWhile (\<lambda>c. c = CHR ''0'') (rev f))"
    by (metis rev_append rev_rev_ident)
  moreover have "rev (takeWhile (\<lambda>c. c = CHR ''0'') (rev f))
      = replicate (length (takeWhile (\<lambda>c. c = CHR ''0'') (rev f))) CHR ''0''"
    using takeWhile_replicate [of "CHR ''0''" "rev f"] by (metis rev_replicate)
  moreover have "length (takeWhile (\<lambda>c. c = CHR ''0'') (rev f)) = length f - length (strip_zeros f)"
    using length_append [of "takeWhile (\<lambda>c. c = CHR ''0'') (rev f)" "dropWhile (\<lambda>c. c = CHR ''0'') (rev f)"]
    by (simp add: strip_zeros_def)
  ultimately show ?thesis by (simp add: strip_zeros_def)
qed

lemma strip_zeros_is_dec: "list_all is_dec f \<Longrightarrow> list_all is_dec (strip_zeros f)"
  by (auto simp add: strip_zeros_def list_all_iff dest: set_dropWhileD)

lemma mathInt_padded:
  assumes "length f \<le> 18"
  shows "mathInt 10 (keep_one (strip_zeros f) @ replicate (18 - length (keep_one (strip_zeros f))) CHR ''0'')
       = mathInt 10 (f @ replicate (18 - length f) CHR ''0'')"
proof (cases "strip_zeros f = []")
  case True
  then have f: "f = replicate (length f) CHR ''0''" using strip_zeros_split [of f] by simp
  have "mathInt 10 (f @ replicate (18 - length f) CHR ''0'') = 0"
    by (subst f) (simp add: replicate_add [symmetric] mathInt_replicate_zero del: replicate_add)
  moreover have "mathInt 10 (''0'' @ replicate 17 CHR ''0'') = 0"
    using mathInt_replicate_zero [of 18] by (simp add: eval_nat_numeral)
  ultimately show ?thesis using True by (simp add: keep_one_def)
next
  case False
  define z where "z = strip_zeros f"
  define k where "k = length f - length z"
  have f: "f = z @ replicate k CHR ''0''" unfolding z_def k_def by (rule strip_zeros_split)
  have len: "length f = length z + k" by (subst f) simp
  have "f @ replicate (18 - length f) CHR ''0'' = z @ replicate (18 - length z) CHR ''0''"
    using assms len by (subst f) (simp add: replicate_add [symmetric] del: replicate_add)
  then show ?thesis using False by (simp add: keep_one_def z_def)
qed


lemma not_dec_point: "\<not> is_dec CHR ''.''"
  by (simp add: is_dec_code)

lemma split_amount_point:
  assumes "list_all is_dec a" and "list_all is_dec b" and "a @ b \<noteq> []"
  shows "split_amount (a @ CHR ''.'' # b) = Some (a, b)"
proof -
  have t: "takeWhile is_dec (a @ CHR ''.'' # b) = a"
    using assms(1) not_dec_point by (simp add: takeWhile_append2 list_all_iff)
  have d: "dropWhile is_dec (a @ CHR ''.'' # b) = CHR ''.'' # b"
    using assms(1) not_dec_point by (simp add: dropWhile_append2 list_all_iff)
  show ?thesis using assms(2,3) by (simp add: split_amount_def t d)
qed

lemma keep_one_is_dec: "list_all is_dec a \<Longrightarrow> list_all is_dec (keep_one a)"
  by (simp add: keep_one_def is_dec_code)

lemma keep_one_nonempty: "keep_one a \<noteq> []"
  by (simp add: keep_one_def)

lemma canonical_amount:
  assumes "split_amount x = Some (w, f)" and "length f \<le> 18"
  shows "toBaseUnits (canonical x) = toBaseUnits x"
proof -
  note parts = split_amount_Some [OF assms(1)]
  define w' where "w' = keep_one (dropWhile (\<lambda>c. c = CHR ''0'') w)"
  define f' where "f' = keep_one (strip_zeros f)"
  have w': "list_all is_dec w'" unfolding w'_def
    using parts(1) by (intro keep_one_is_dec) (auto simp add: list_all_iff dest: set_dropWhileD)
  have f': "list_all is_dec f'" unfolding f'_def
    using parts(2) by (intro keep_one_is_dec strip_zeros_is_dec)
  have ne: "w' @ f' \<noteq> []" unfolding w'_def using keep_one_nonempty by simp
  have "length (strip_zeros f) \<le> length f"
    using length_dropWhile_le [of "\<lambda>c. c = CHR ''0''" "rev f"] by (simp add: strip_zeros_def)
  then have len: "length f' \<le> 18" using assms(2) by (cases "strip_zeros f = []") (simp_all add: f'_def keep_one_def)
  have c: "canonical x = w' @ CHR ''.'' # f'"
    by (simp add: canonical_def assms(1) w'_def f'_def)
  have "baseUnits (canonical x) =
      Some (mathInt 10 w' * 10 ^ 18 + mathInt 10 (f' @ replicate (18 - length f') CHR ''0''))"
    unfolding c by (rule baseUnits_value [OF split_amount_point [OF w' f' ne] len])
  moreover have "mathInt 10 w' = mathInt 10 w"
    unfolding w'_def by (rule mathInt_keep_one [OF parts(1)])
  moreover have "mathInt 10 (f' @ replicate (18 - length f') CHR ''0'')
      = mathInt 10 (f @ replicate (18 - length f) CHR ''0'')"
    unfolding f'_def by (rule mathInt_padded [OF assms(2)])
  ultimately show ?thesis by (simp add: toBaseUnits_def baseUnits_value [OF assms])
qed

text \<open>
  Claim C3. For every non-negative decimal amount string \<open>x\<close> with at most 18 fractional
  digits, converting \<open>x\<close> to base units and back gives \<open>x\<close> in canonical form (trailing
  fractional zeros and leading zeros trimmed, one digit kept on each side of the point),
  which denotes the same amount as \<open>x\<close>.
  The same holds through the form: the value that \<open>handleValueChange\<close> stores for \<open>x\<close> in
  the \<^verbatim>\<open>eth\<close> unit is the base-unit string of \<open>x\<close>, and \<open>weiToEth\<close> turns it into the
  canonical form of \<open>x\<close>. Entering \<^verbatim>\<open>1.0\<close> in the \<^verbatim>\<open>eth\<close> unit stores
  \<^verbatim>\<open>1000000000000000000\<close>.
\<close>

theorem unit_round_trip:
  "(split_amount x = Some (w, f) \<and> length f \<le> 18 \<longrightarrow>
      (\<exists>n. toBaseUnits x = Some n \<and> fromBaseUnits n = Some (canonical x))
      \<and> toBaseUnits (canonical x) = toBaseUnits x)
   \<and> (split_amount x = Some (w, f) \<and> length f \<le> 18 \<and> valueUnit st = eth \<longrightarrow>
      (\<exists>n. req_value (formData (handleValueChange spec_ethers st x)) = Some n
           \<and> toBaseUnits x = Some n
           \<and> weiToEth spec_ethers n = canonical x))
   \<and> toBaseUnits ''1.0'' = Some ''1000000000000000000''
   \<and> (valueUnit st = eth \<longrightarrow>
        req_value (formData (handleValueChange spec_ethers st ''1.0'')) = Some ''1000000000000000000'')"
proof -
  have field: "req_value (formData (handleValueChange spec_ethers st y)) = Some n"
    if "valueUnit st = eth" "y \<noteq> []" "y \<noteq> ''.''" "map_option BigInt_toString (parseEther spec_ethers y) = Some n"
    for y n
    using that by (auto simp add: handleValueChange_def handleInputChange_value_def Let_def)
  have a: "(\<exists>n. toBaseUnits x = Some n \<and> fromBaseUnits n = Some (canonical x))
      \<and> toBaseUnits (canonical x) = toBaseUnits x"
    if "split_amount x = Some (w, f)" "length f \<le> 18"
    using round_trip [OF that] canonical_amount [OF that] by blast
  have b: "\<exists>n. req_value (formData (handleValueChange spec_ethers st x)) = Some n
           \<and> toBaseUnits x = Some n \<and> weiToEth spec_ethers n = canonical x"
    if s: "split_amount x = Some (w, f)" "length f \<le> 18" and u: "valueUnit st = eth"
  proof -
    obtain n where n: "toBaseUnits x = Some n" "fromBaseUnits n = Some (canonical x)"
      "map_option BigInt_toString (parseEther spec_ethers x) = Some n"
      using round_trip [OF s] by blast
    have "n \<noteq> []" using n(1) by (auto simp add: toBaseUnits_def digits_nonempty)
    then have "weiToEth spec_ethers n = canonical x"
      using n(2) by (simp add: weiToEth_def spec_ethers_def)
    moreover have "req_value (formData (handleValueChange spec_ethers st x)) = Some n"
      using field [OF u split_amount_Some(4,5) [OF s(1)] n(3)] .
    ultimately show ?thesis using n(1) by blast
  qed
  have c: "map_option BigInt_toString (parseEther spec_ethers ''1.0'') = Some ''1000000000000000000''"
    using one_ether by (simp add: parseEther_spec)
  have d: "req_value (formData (handleValueChange spec_ethers st ''1.0'')) = Some ''1000000000000000000''"
    if "valueUnit st = eth"
    using field [OF that _ _ c] by simp
  show ?thesis using a b one_ether d by blast
qed


lemma is_dec_plain:
  assumes "is_dec c"
  shows "\<not> is_space c" and "c \<noteq> CHR ''+''" and "c \<noteq> CHR ''-''" and "c \<noteq> CHR ''x''" and "c \<noteq> CHR ''X''"
  using assms by (auto simp add: is_dec_code is_space_def)

lemma takeWhile_dec: "list_all is_dec v \<Longrightarrow> takeWhile (is_digit 10) v = v"
  by (induction v) (simp_all add: is_dec_def)

lemma parseInt_decimal:
  assumes "v \<noteq> []" and "list_all is_dec v"
  shows "parseInt v 0 = (case toDouble (mathInt 10 v) of None \<Rightarrow> PosInfinity | Some d \<Rightarrow> Fin (int d))"
proof -
  obtain c r where v: "v = c # r" using assms(1) by (cases v) auto
  have c: "is_dec c" and r: "list_all is_dec r" using assms(2) v by simp_all
  have p: "take 2 v \<noteq> ''0x''" "take 2 v \<noteq> ''0X''"
    using r is_dec_plain(4,5) [of "hd r"] unfolding v by (cases r; simp)+
  have d: "dropWhile is_space v = v" using is_dec_plain(1) [OF c] by (simp add: v)
  have h: "hd v \<noteq> CHR ''+''" "hd v \<noteq> CHR ''-''" using is_dec_plain(2,3) [OF c] by (simp_all add: v)
  have t: "takeWhile (is_digit 10) v = v" by (rule takeWhile_dec [OF assms(2)])
  show ?thesis
    unfolding parseInt_def Let_def d
    using h p assms(1)
    by (cases "toDouble (mathInt 10 v)") (simp_all add: t)
qed

lemma hex_quantity_digits: "hex_quantity (''0x'' @ digits 16 d) = Some d"
  using mathInt_digits [of 16 d] digits_nonempty [of 16 d]
  by (simp add: hex_quantity_def is_digit_16 [abs_def])

lemma hex_quantity_Infinity: "hex_quantity (''0x'' @ ''Infinity'') = None"
  by (simp add: hex_quantity_def is_hex_char_def)

lemma payload_exact:
  assumes "v \<noteq> []" and "list_all is_dec v"
  shows "hex_quantity (''0x'' @ Number_toString16 (parseInt v 0)) = Some (mathInt 10 v)
     \<longleftrightarrow> toDouble (mathInt 10 v) = Some (mathInt 10 v)"
proof (cases "toDouble (mathInt 10 v)")
  case None
  then show ?thesis using hex_quantity_Infinity by (simp add: parseInt_decimal [OF assms])
next
  case (Some d)
  then show ?thesis using hex_quantity_digits [of d] by (simp add: parseInt_decimal [OF assms])
qed

lemma handleSubmit_payload: "handleSubmit E st = Submitted t \<longrightarrow>
        (\<exists>finalValue.
            (if valueUnit st = eth \<and> ethValue st \<noteq> []
             then map_option BigInt_toString (parseEther E (ethValue st))
             else Some (case req_value (formData st) of None \<Rightarrow> [] | Some v \<Rightarrow> v)) = Some finalValue
          \<and> req_value t = (if finalValue = [] then None
                            else Some (''0x'' @ Number_toString16 (parseInt finalValue 0))))"
proof
  assume s: "handleSubmit E st = Submitted t"
  define fv where "fv = (if valueUnit st = eth \<and> ethValue st \<noteq> []
             then map_option BigInt_toString (parseEther E (ethValue st))
             else Some (case req_value (formData st) of None \<Rightarrow> [] | Some v \<Rightarrow> v))"
  have v: "validateForm E st = []" using s by (simp add: handleSubmit_def split: if_splits)
  have "handleSubmit E st =
      (case fv of
         None \<Rightarrow> Refused [(''value'', ''Invalid '' @ currentCurrencySymbol st @ '' value'')]
       | Some finalValue \<Rightarrow>
           Submitted \<lparr>req_to = req_to (formData st), req_data = req_data (formData st),
              req_value = (if finalValue = [] then None
                           else Some (''0x'' @ Number_toString16 (parseInt finalValue 0)))\<rparr>)"
    unfolding fv_def handleSubmit_def using v by (simp only: if_False simp_thms)
  then obtain finalValue where "fv = Some finalValue"
    and "t = \<lparr>req_to = req_to (formData st), req_data = req_data (formData st),
              req_value = (if finalValue = [] then None
                           else Some (''0x'' @ Number_toString16 (parseInt finalValue 0)))\<rparr>"
    using s by (cases fv) simp_all
  then show "\<exists>finalValue. fv = Some finalValue
          \<and> req_value t = (if finalValue = [] then None
                            else Some (''0x'' @ Number_toString16 (parseInt finalValue 0)))"
    by simp
qed

text \<open>
  Claim C9. Whenever \<open>handleSubmit\<close> submits with a non-empty final value, the value in
  the payload is \<^verbatim>\<open>0x\<close> followed by \<^verbatim>\<open>parseInt(finalValue).toString(16)\<close>. A form that
  passes validation in the \<^verbatim>\<open>wei\<close> unit with a value \<open>v\<close> of decimal digits is submitted
  with \<^verbatim>\<open>parseInt(v)\<close> being the double nearest to the integer that \<open>v\<close> denotes. The
  submitted amount equals the entered integer exactly when that integer is a double;
  every integer below \<open>2\<^sup>5\<^sup>3\<close> is; and for the input \<^verbatim>\<open>9007199254740993\<close>, which is
  \<open>2\<^sup>5\<^sup>3 + 1\<close>, the submitted amount is \<open>2\<^sup>5\<^sup>3\<close>.
\<close>

theorem handleSubmit_value_precision:
  "(validateForm E st = [] \<and> valueUnit st = wei \<and> req_value (formData st) = Some v \<and>
      v \<noteq> [] \<and> list_all is_dec v \<longrightarrow>
        handleSubmit E st =
          Submitted \<lparr>req_to = req_to (formData st), req_data = req_data (formData st),
                     req_value = Some (''0x'' @ Number_toString16 (parseInt v 0))\<rparr>
        \<and> parseInt v 0 =
            (case toDouble (mathInt 10 v) of None \<Rightarrow> PosInfinity | Some d \<Rightarrow> Fin (int d))
        \<and> (hex_quantity (''0x'' @ Number_toString16 (parseInt v 0)) = Some (mathInt 10 v)
             \<longleftrightarrow> toDouble (mathInt 10 v) = Some (mathInt 10 v)))
   \<and> (mathInt 10 v < 2 ^ 53 \<longrightarrow> toDouble (mathInt 10 v) = Some (mathInt 10 v))
   \<and> mathInt 10 ''9007199254740993'' = 2 ^ 53 + 1
   \<and> hex_quantity (''0x'' @ Number_toString16 (parseInt ''9007199254740993'' 0)) = Some (2 ^ 53)
   \<and> (handleSubmit E st = Submitted t \<longrightarrow>
        (\<exists>finalValue.
            (if valueUnit st = eth \<and> ethValue st \<noteq> []
             then map_option BigInt_toString (parseEther E (ethValue st))
             else Some (case req_value (formData st) of None \<Rightarrow> [] | Some v \<Rightarrow> v)) = Some finalValue
          \<and> req_value t = (if finalValue = [] then None
                            else Some (''0x'' @ Number_toString16 (parseInt finalValue 0)))))"
proof -
  have a: "handleSubmit E st =
          Submitted \<lparr>req_to = req_to (formData st), req_data = req_data (formData st),
                     req_value = Some (''0x'' @ Number_toString16 (parseInt v 0))\<rparr>"
    if "validateForm E st = []" "valueUnit st = wei" "req_value (formData st) = Some v" "v \<noteq> []"
    using that by (simp add: handleSubmit_def)
  have b: "mathInt 10 ''9007199254740993'' = 2 ^ 53 + 1"
    by (simp add: mathInt_def digit_value_def)
  have "toDouble (2 ^ 53 + 1) = Some (2 ^ 53)"
    by (simp add: toDouble_def bitlen.simps Let_def)
  then have c: "hex_quantity (''0x'' @ Number_toString16 (parseInt ''9007199254740993'' 0)) = Some (2 ^ 53)"
    using hex_quantity_digits [of "2 ^ 53"] b
    by (simp add: parseInt_decimal is_dec_code)
  have first: "validateForm E st = [] \<and> valueUnit st = wei \<and> req_value (formData st) = Some v \<and>
      v \<noteq> [] \<and> list_all is_dec v \<longrightarrow>
        handleSubmit E st =
          Submitted \<lparr>req_to = req_to (formData st), req_data = req_data (formData st),
                     req_value = Some (''0x'' @ Number_toString16 (parseInt v 0))\<rparr>
        \<and> parseInt v 0 =
            (case toDouble (mathInt 10 v) of None \<Rightarrow> PosInfinity | Some d \<Rightarrow> Fin (int d))
        \<and> (hex_quantity (''0x'' @ Number_toString16 (parseInt v 0)) = Some (mathInt 10 v)
             \<longleftrightarrow> toDouble (mathInt 10 v) = Some (mathInt 10 v))"
    using a parseInt_decimal [of v] payload_exact [of v] by blast
  have second: "mathInt 10 v < 2 ^ 53 \<longrightarrow> toDouble (mathInt 10 v) = Some (mathInt 10 v)"
    using toDouble_small by blast
  show ?thesis
    by (intro conjI) (rule first second b c handleSubmit_payload)+
qed


lemma fromBaseUnits_defined: "n \<noteq> [] \<Longrightarrow> list_all is_dec n \<Longrightarrow> fromBaseUnits n \<noteq> None"
  by (simp add: fromBaseUnits_def Let_def)

lemma example_form_valid:
  assumes "v \<noteq> []" and "list_all is_dec v"
  shows "validateForm spec_ethers (example_form wei v) = []"
proof -
  have "isValidAddress ''0x6B175474E89094C44Da98b954EedeAC495271d0F''"
    by (simp add: isValidAddress_def test_def hex_class_def times_class in_class_def)
  moreover have "isValidCalldata ''0xa9059cbb''"
    by (simp add: isValidCalldata_def test_def hex_class_def in_class_def)
  moreover obtain s where "fromBaseUnits v = Some s"
    using fromBaseUnits_defined [OF assms] by auto
  ultimately show ?thesis
    using assms(1) by (simp add: validateForm_def example_form_def spec_ethers_def)
qed

theorem handleSubmit_value_precision_witness:
  "handleSubmit spec_ethers (example_form wei ''1000000000000000000'') =
     Submitted \<lparr>req_to = ''0x6B175474E89094C44Da98b954EedeAC495271d0F'', req_data = ''0xa9059cbb'',
                req_value = Some ''0xde0b6b3a7640000''\<rparr>
   \<and> hex_quantity ''0xde0b6b3a7640000'' = Some 1000000000000000000
   \<and> handleSubmit spec_ethers (example_form wei ''9007199254740993'') =
     Submitted \<lparr>req_to = ''0x6B175474E89094C44Da98b954EedeAC495271d0F'', req_data = ''0xa9059cbb'',
                req_value = Some ''0x20000000000000''\<rparr>
   \<and> hex_quantity ''0x20000000000000'' = Some 9007199254740992"
proof -
  have d1: "list_all is_dec ''1000000000000000000''" and d2: "list_all is_dec ''9007199254740993''"
    by (simp_all add: is_dec_code)
  have m1: "mathInt 10 ''1000000000000000000'' = 1000000000000000000"
    and m2: "mathInt 10 ''9007199254740993'' = 9007199254740993"
    by (simp_all add: mathInt_def digit_value_def)
  have t1: "toDouble 1000000000000000000 = Some 1000000000000000000"
    by (simp add: toDouble_def bitlen.simps Let_def)
  have t2: "toDouble 9007199254740993 = Some 9007199254740992"
    by (simp add: toDouble_def bitlen.simps Let_def)
  have x1: "digits 16 1000000000000000000 = ''de0b6b3a7640000''"
    and x2: "digits 16 9007199254740992 = ''20000000000000''"
    by (simp_all add: digits.simps digit_char_def)
  note w1 = handleSubmit_value_precision [where E = spec_ethers
      and st = "example_form wei ''1000000000000000000''" and v = "''1000000000000000000''"]
  note w2 = handleSubmit_value_precision [where E = spec_ethers
      and st = "example_form wei ''9007199254740993''" and v = "''9007199254740993''"]
  have p1: "validateForm spec_ethers (example_form wei ''1000000000000000000'') = []"
    and p2: "validateForm spec_ethers (example_form wei ''9007199254740993'') = []"
    using d1 d2 by (simp_all add: example_form_valid)
  have f1: "req_value (formData (example_form wei ''1000000000000000000'')) = Some ''1000000000000000000''"
       "valueUnit (example_form wei ''1000000000000000000'') = wei"
       "req_to (formData (example_form wei ''1000000000000000000'')) = ''0x6B175474E89094C44Da98b954EedeAC495271d0F''"
       "req_data (formData (example_form wei ''1000000000000000000'')) = ''0xa9059cbb''"
    and f2: "req_value (formData (example_form wei ''9007199254740993'')) = Some ''9007199254740993''"
       "valueUnit (example_form wei ''9007199254740993'') = wei"
       "req_to (formData (example_form wei ''9007199254740993'')) = ''0x6B175474E89094C44Da98b954EedeAC495271d0F''"
       "req_data (formData (example_form wei ''9007199254740993'')) = ''0xa9059cbb''"
    by (simp_all add: example_form_def)
  have h1: "validateForm spec_ethers (example_form wei ''1000000000000000000'') = [] \<and>
      valueUnit (example_form wei ''1000000000000000000'') = wei \<and>
      req_value (formData (example_form wei ''1000000000000000000'')) = Some ''1000000000000000000'' \<and>
      ''1000000000000000000'' \<noteq> [] \<and> list_all is_dec ''1000000000000000000''"
    using p1 d1 f1 by simp
  have h2: "validateForm spec_ethers (example_form wei ''9007199254740993'') = [] \<and>
      valueUnit (example_form wei ''9007199254740993'') = wei \<and>
      req_value (formData (example_form wei ''9007199254740993'')) = Some ''9007199254740993'' \<and>
      ''9007199254740993'' \<noteq> [] \<and> list_all is_dec ''9007199254740993''"
    using p2 d2 f2 by simp
  note c1 = mp [OF w1 [THEN conjunct1] h1]
  note c2 = mp [OF w2 [THEN conjunct1] h2]
  have n1: "Number_toString16 (parseInt ''1000000000000000000'' 0) = ''de0b6b3a7640000''"
    by (simp add: c1 [THEN conjunct2, THEN conjunct1] m1 t1 x1)
  have n2: "Number_toString16 (parseInt ''9007199254740993'' 0) = ''20000000000000''"
    by (simp add: c2 [THEN conjunct2, THEN conjunct1] m2 t2 x2)
  have r1: "handleSubmit spec_ethers (example_form wei ''1000000000000000000'') =
     Submitted \<lparr>req_to = ''0x6B175474E89094C44Da98b954EedeAC495271d0F'', req_data = ''0xa9059cbb'',
                req_value = Some ''0xde0b6b3a7640000''\<rparr>"
    using c1 [THEN conjunct1] by (simp add: n1 f1)
  have q1: "hex_quantity ''0xde0b6b3a7640000'' = Some 1000000000000000000"
    using c1 [THEN conjunct2, THEN conjunct2] by (simp add: n1 m1 t1)
  have r2: "handleSubmit spec_ethers (example_form wei ''9007199254740993'') =
     Submitted \<lparr>req_to = ''0x6B175474E89094C44Da98b954EedeAC495271d0F'', req_data = ''0xa9059cbb'',
                req_value = Some ''0x20000000000000''\<rparr>"
    using c2 [THEN conjunct1] by (simp add: n2 f2)
  have q2: "hex_quantity ''0x20000000000000'' = Some 9007199254740992"
    using w2 [THEN conjunct2, THEN conjunct2, THEN conjunct2, THEN conjunct1] by (simp add: n2)
  show ?thesis using r1 q1 r2 q2 by simp
qed

theorem unit_round_trip_witness:
  "toBaseUnits ''1.50'' = Some ''1500000000000000000''
   \<and> fromBaseUnits ''1500000000000000000'' = Some ''1.5''
   \<and> req_value (formData (handleValueChange spec_ethers (example_form eth []) ''1.50''))
       = Some ''1500000000000000000''
   \<and> weiToEth spec_ethers ''1500000000000000000'' = ''1.5''"
proof -
  have s: "split_amount ''1.50'' = Some (''1'', ''50'')"
    by (simp add: split_amount_def is_dec_def is_digit_def digit_value_def)
  have "baseUnits ''1.50'' =
      Some (mathInt 10 ''1'' * 10 ^ 18 + mathInt 10 (''50'' @ replicate (18 - length ''50'') CHR ''0''))"
    by (rule baseUnits_value [OF s]) simp
  moreover have "mathInt 10 ''1'' * 10 ^ 18 + mathInt 10 (''50'' @ replicate (18 - length ''50'') CHR ''0'')
      = 1500000000000000000"
    by (simp add: mathInt_Cons mathInt_Nil mathInt_replicate_zero digit_value_def)
  moreover have "digits 10 1500000000000000000 = ''1500000000000000000''"
    by (simp add: digits.simps digit_char_def)
  ultimately have t: "toBaseUnits ''1.50'' = Some ''1500000000000000000''"
    by (simp add: toBaseUnits_def)
  have c: "canonical ''1.50'' = ''1.5''"
    by (simp add: canonical_def s keep_one_def strip_zeros_def)
  have u: "valueUnit (example_form eth []) = eth" by (simp add: example_form_def)
  note w = unit_round_trip [where x = "''1.50''" and w = "''1''" and f = "''50''"
      and st = "example_form eth []"]
  show ?thesis using w s t c u by simp
qed

end
